theory Spec2Isabelle
  imports Complex_Main "HOL-Library.Sublist"
begin

section \<open>Python values\<close>

text \<open>
  Values of type \<^verbatim>\<open>typing.Any\<close> that travel in the open dictionaries
  (\<^verbatim>\<open>extra_params\<close>, \<^verbatim>\<open>kwargs\<close>, \<^verbatim>\<open>metadata\<close>, the JSON payload).
  Dictionaries are finite maps from keys to such values.
\<close>

datatype pyval =
    PNone
  | PBool bool
  | PInt int
  | PFloat real
  | PStr string
  | PList "pyval list"
  | PDict "(string \<times> pyval) list"

type_synonym pydict = "string \<rightharpoonup> pyval"

text \<open>
  Python floats are IEEE doubles. A float is modelled as the real number it denotes, and
  the float operations on the data of a request take the rounding operator \<open>rnd\<close> of the
  float format as a parameter: the result of an operation is the rounded exact result.
  Exact arithmetic is the instance \<open>rnd = (\<lambda>x. x)\<close>.
\<close>

definition fadd :: "(real \<Rightarrow> real) \<Rightarrow> real \<Rightarrow> real \<Rightarrow> real" where
  "fadd rnd a b = rnd (a + b)"

definition fmul :: "(real \<Rightarrow> real) \<Rightarrow> real \<Rightarrow> real \<Rightarrow> real" where
  "fmul rnd a b = rnd (a * b)"

text \<open>\<^verbatim>\<open>int(x)\<close> on a float truncates towards zero.\<close>

definition py_int :: "real \<Rightarrow> int" where
  "py_int x = (if 0 \<le> x then \<lfloor>x\<rfloor> else \<lceil>x\<rceil>)"

text \<open>Truthiness of an optional string or list: \<^verbatim>\<open>None\<close> and the empty value are falsy.\<close>

fun truthy :: "'a list option \<Rightarrow> bool" where
  "truthy None = False"
| "truthy (Some xs) = (xs \<noteq> [])"

text \<open>What an f-string prints for an optional string: \<^verbatim>\<open>None\<close> prints as the word None.\<close>

fun fmt_opt :: "string option \<Rightarrow> string" where
  "fmt_opt None = ''None''"
| "fmt_opt (Some s) = s"

text \<open>
  \<^verbatim>\<open>str.lower\<close> and the \<^verbatim>\<open>in\<close> test on strings. Strings are byte strings here and
  \<open>lower\<close> folds the ASCII letters only.
\<close>

definition lower_char :: "char \<Rightarrow> char" where
  "lower_char c =
     (case map_of (zip ''ABCDEFGHIJKLMNOPQRSTUVWXYZ'' ''abcdefghijklmnopqrstuvwxyz'') c of
        None \<Rightarrow> c
      | Some d \<Rightarrow> d)"

definition lower :: "string \<Rightarrow> string" where
  "lower s = map lower_char s"

fun contains :: "string \<Rightarrow> string \<Rightarrow> bool" where
  "contains sub [] = (sub = [])"
| "contains sub (c # cs) = (prefix sub (c # cs) \<or> contains sub cs)"

section \<open>protocol.py\<close>

datatype AceStepMode = TRANSFORM | COVER | REPAINT | EXTRACT | LAYER | COMPLETE

text \<open>The table \<^verbatim>\<open>NUEVA_TO_ACESTEP_TASK\<close>; it has an entry for every mode.\<close>

fun NUEVA_TO_ACESTEP_TASK :: "AceStepMode \<Rightarrow> string" where
  "NUEVA_TO_ACESTEP_TASK TRANSFORM = ''text2music''"
| "NUEVA_TO_ACESTEP_TASK COVER = ''cover''"
| "NUEVA_TO_ACESTEP_TASK REPAINT = ''repaint''"
| "NUEVA_TO_ACESTEP_TASK EXTRACT = ''extract''"
| "NUEVA_TO_ACESTEP_TASK LAYER = ''lego''"
| "NUEVA_TO_ACESTEP_TASK COMPLETE = ''complete''"

record NuevaRequest =
  mode :: AceStepMode
  input_path :: string
  output_path :: string
  prompt :: "string option"
  intensity :: real
  preserve_melody :: bool
  preserve_tempo :: bool
  preserve_key :: bool
  extract_target :: "string option"
  add_layers :: "string list option"
  remove_layers :: "string list option"
  duration_seconds :: "real option"
  seed :: "int option"
  quantization :: "string option"
  extra_params :: pydict

record NuevaResponse =
  success :: bool
  resp_output_path :: "string option"
  processing_time_ms :: int
  description :: string
  intentional_artifacts :: "string list"
  warnings :: "string list"
  error_code :: "string option"
  error_message :: "string option"
  metadata :: pydict

record AceStepRequest =
  task :: string
  audio_path :: "string option"
  as_prompt :: "string option"
  guidance_scale :: real
  num_inference_steps :: int
  audio_duration :: "real option"
  kwargs :: pydict

record AceStepResponse =
  as_success :: bool
  as_audio_path :: "string option"
  as_error :: "string option"
  as_metadata :: pydict

text \<open>
  The mode-dependent entries of \<^verbatim>\<open>kwargs\<close>: the \<^verbatim>\<open>if/elif\<close> chain of
  \<^verbatim>\<open>nueva_to_acestep\<close>, starting from the empty dictionary.
\<close>

definition mode_kwargs :: "NuevaRequest \<Rightarrow> pydict" where
  "mode_kwargs request =
     (if mode request = COVER then
        Map.empty(''preserve_melody'' \<mapsto> PBool (preserve_melody request),
                  ''preserve_tempo'' \<mapsto> PBool (preserve_tempo request),
                  ''preserve_key'' \<mapsto> PBool (preserve_key request))
      else if mode request = EXTRACT then
        (if truthy (extract_target request)
         then Map.empty(''target'' \<mapsto> PStr (the (extract_target request)))
         else Map.empty)
      else if mode request = LAYER then
        (let k1 = (if truthy (add_layers request)
                   then Map.empty(''add_instruments'' \<mapsto> PList (map PStr (the (add_layers request))))
                   else Map.empty)
         in if truthy (remove_layers request)
            then k1(''remove_instruments'' \<mapsto> PList (map PStr (the (remove_layers request))))
            else k1)
      else Map.empty)"

text \<open>The seed is added when it is not \<^verbatim>\<open>None\<close> (a seed of 0 is added).\<close>

definition seed_kwargs :: "NuevaRequest \<Rightarrow> pydict \<Rightarrow> pydict" where
  "seed_kwargs request k =
     (case seed request of None \<Rightarrow> k | Some s \<Rightarrow> k(''seed'' \<mapsto> PInt s))"

text \<open>
  \<^verbatim>\<open>nueva_to_acestep\<close>. \<^verbatim>\<open>kwargs.update(request.extra_params)\<close> is \<open>++\<close>, where
  the right-hand map wins. The constructor call passes no \<^verbatim>\<open>num_inference_steps\<close>,
  so the field takes the default 50 of the \<^verbatim>\<open>AceStepRequest\<close> schema.
\<close>

definition nueva_to_acestep :: "(real \<Rightarrow> real) \<Rightarrow> NuevaRequest \<Rightarrow> AceStepRequest" where
  "nueva_to_acestep rnd request =
     \<lparr> task = NUEVA_TO_ACESTEP_TASK (mode request),
       audio_path = Some (input_path request),
       as_prompt = prompt request,
       guidance_scale = fadd rnd 3 (fmul rnd (intensity request) 12),
       num_inference_steps = 50,
       audio_duration = duration_seconds request,
       kwargs = seed_kwargs request (mode_kwargs request) ++ extra_params request \<rparr>"

text \<open>The intentional artifacts that \<^verbatim>\<open>acestep_to_nueva\<close> derives from the mode and prompt.\<close>

definition artifacts_of :: "NuevaRequest \<Rightarrow> string list" where
  "artifacts_of original_request =
     (if mode original_request = COVER then
        [''cover_timbre'', ''different_timbre''] @
        (if truthy (prompt original_request) \<and>
            (\<exists>g \<in> set [''jazz'', ''rock'', ''classical'', ''electronic''].
               contains g (lower (the (prompt original_request))))
         then [''genre_transformation''] else [])
      else if mode original_request = TRANSFORM then
        [''intentional_coloration''] @
        (if truthy (prompt original_request) \<and>
            contains ''vintage'' (lower (the (prompt original_request)))
         then [''frequency_rolloff''] else [])
      else if mode original_request = EXTRACT then [''vocal_extraction_artifacts'']
      else if mode original_request = LAYER then [''layer_artifacts'']
      else [])"

fun mode_desc :: "AceStepMode \<Rightarrow> string" where
  "mode_desc TRANSFORM = ''Generated music from prompt''"
| "mode_desc COVER = ''Created cover version''"
| "mode_desc REPAINT = ''Repainted audio region''"
| "mode_desc EXTRACT = ''Extracted audio sources''"
| "mode_desc LAYER = ''Modified instrument layers''"
| "mode_desc COMPLETE = ''Added accompaniment''"

text \<open>
  \<^verbatim>\<open>acestep_to_nueva\<close>. Fields that the constructor call leaves out take the defaults
  of the \<^verbatim>\<open>NuevaResponse\<close> schema. \<^verbatim>\<open>a or b\<close> on the audio path picks the request's
  output path when the engine's path is \<^verbatim>\<open>None\<close> or empty.
\<close>

definition acestep_to_nueva :: "AceStepResponse \<Rightarrow> NuevaRequest \<Rightarrow> int \<Rightarrow> NuevaResponse" where
  "acestep_to_nueva acestep_response original_request time_ms =
     (if \<not> as_success acestep_response then
        \<lparr> success = False,
          resp_output_path = None,
          processing_time_ms = time_ms,
          description = ''ACE-Step processing failed: '' @ fmt_opt (as_error acestep_response),
          intentional_artifacts = [],
          warnings = [],
          error_code = Some ''ACESTEP_ERROR'',
          error_message = as_error acestep_response,
          metadata = Map.empty \<rparr>
      else
        \<lparr> success = True,
          resp_output_path =
            Some (if truthy (as_audio_path acestep_response)
                  then the (as_audio_path acestep_response)
                  else output_path original_request),
          processing_time_ms = time_ms,
          description =
            mode_desc (mode original_request) @
            (if truthy (prompt original_request)
             then '': '' @ [CHR 0x27] @ the (prompt original_request) @ [CHR 0x27]
             else []),
          intentional_artifacts = artifacts_of original_request,
          warnings = [],
          error_code = None,
          error_message = None,
          metadata = as_metadata acestep_response \<rparr>)"

section \<open>The outside world\<close>

text \<open>
  What an awaited HTTP call yields: a response (status code, body text, and what
  \<^verbatim>\<open>response.json()\<close> gives: the decoded value, or the message of the exception it
  raises on a malformed body), or an exception raised by the transport.
\<close>

datatype http_outcome =
    Response nat string "string + pyval"
  | TimeoutException
  | ConnectError string
  | OtherException string

text \<open>
  The environment answers every interaction of the program: the outcome and duration of
  the n-th GET and the n-th POST, \<^verbatim>\<open>shutil.which\<close>, \<^verbatim>\<open>sys.executable\<close>, whether
  \<^verbatim>\<open>subprocess.Popen\<close> raises on a command (and with what message), the exit status of
  the n-th launched subprocess at a time (\<^verbatim>\<open>poll()\<close>; \<open>None\<close> while it runs), whether a
  path exists and how long that check takes, and how Python prints a float.
\<close>

record env =
  get_outcome :: "nat \<Rightarrow> http_outcome"
  get_time :: "nat \<Rightarrow> real"
  post_outcome :: "nat \<Rightarrow> http_outcome"
  post_time :: "nat \<Rightarrow> real"
  which :: "string \<Rightarrow> string option"
  sys_executable :: "string option"
  popen_error :: "string list \<Rightarrow> string option"
  exit_status :: "nat \<Rightarrow> real \<Rightarrow> int option"
  path_exists :: "string \<Rightarrow> bool"
  fs_time :: real
  repr_float :: "real \<Rightarrow> string"

text \<open>
  The state of the world the program changes: the clock (seconds; the wall clock and the
  event loop's clock are one clock, and arithmetic on its readings is exact), the GET
  requests issued so far (URL, timeout), the POST requests issued so far (URL, timeout,
  JSON payload), and the commands of the subprocesses launched so far.
\<close>

record world =
  clock :: real
  gets :: "(string \<times> real) list"
  posts :: "(string \<times> real \<times> pydict) list"
  launched :: "string list list"

definition http_get :: "env \<Rightarrow> string \<Rightarrow> real \<Rightarrow> world \<Rightarrow> http_outcome \<times> world" where
  "http_get e url tmo w =
     (get_outcome e (length (gets w)),
      w\<lparr> clock := clock w + get_time e (length (gets w)), gets := gets w @ [(url, tmo)] \<rparr>)"

definition http_post ::
  "env \<Rightarrow> string \<Rightarrow> real \<Rightarrow> pydict \<Rightarrow> world \<Rightarrow> http_outcome \<times> world" where
  "http_post e url tmo payload w =
     (post_outcome e (length (posts w)),
      w\<lparr> clock := clock w + post_time e (length (posts w)),
         posts := posts w @ [(url, tmo, payload)] \<rparr>)"

text \<open>\<^verbatim>\<open>asyncio.sleep(d)\<close>: the clock advances by \<open>d\<close> (not at all for a negative \<open>d\<close>).\<close>

definition sleep :: "real \<Rightarrow> world \<Rightarrow> world" where
  "sleep d w = w\<lparr> clock := clock w + max 0 d \<rparr>"

text \<open>How an f-string prints a natural number.\<close>

fun show_nat :: "nat \<Rightarrow> string" where
  "show_nat n =
     (if n < 10 then [''0123456789'' ! n]
      else show_nat (n div 10) @ [''0123456789'' ! (n mod 10)])"

declare show_nat.simps [simp del]

section \<open>acestep_client.py\<close>

record AceStepClient =
  base_url :: string
  timeout :: real

text \<open>The lookup \<^verbatim>\<open>d.get(k)\<close> in a decoded JSON object; a repeated key keeps its last value.\<close>

definition pd_get :: "(string \<times> pyval) list \<Rightarrow> string \<Rightarrow> pyval option" where
  "pd_get kvs k = map_of (rev kvs) k"

text \<open>
  The JSON payload of \<^verbatim>\<open>AceStepClient.process\<close>: the dictionary display with
  \<^verbatim>\<open>**request.kwargs\<close> last (its keys win), then the two optional fields, each added when
  it is truthy.
\<close>

definition build_payload :: "AceStepRequest \<Rightarrow> pydict" where
  "build_payload request =
     (let p0 = Map.empty(''task'' \<mapsto> PStr (task request),
                         ''prompt'' \<mapsto> (case as_prompt request of None \<Rightarrow> PNone | Some s \<Rightarrow> PStr s),
                         ''guidance_scale'' \<mapsto> PFloat (guidance_scale request),
                         ''num_inference_steps'' \<mapsto> PInt (num_inference_steps request))
                ++ kwargs request;
          p1 = (if truthy (audio_path request)
                then p0(''audio_path'' \<mapsto> PStr (the (audio_path request))) else p0)
      in (case audio_duration request of
            None \<Rightarrow> p1
          | Some d \<Rightarrow> if d \<noteq> 0 then p1(''audio_duration'' \<mapsto> PFloat d) else p1))"

text \<open>
  Building the successful \<^verbatim>\<open>AceStepResponse\<close> from the decoded body: \<^verbatim>\<open>data.get\<close>
  raises when the body is not a JSON object, and the schema refuses an \<^verbatim>\<open>audio_path\<close>
  that is not a string or null and a \<^verbatim>\<open>metadata\<close> that is not an object. The result
  is the message of the exception, or the two fields.
\<close>

definition decode_generate :: "pyval \<Rightarrow> string + (string option \<times> pydict)" where
  "decode_generate data =
     (case data of
        PDict kvs \<Rightarrow>
          (case (case pd_get kvs ''audio_path'' of
                   None \<Rightarrow> Inr None
                 | Some PNone \<Rightarrow> Inr None
                 | Some (PStr s) \<Rightarrow> Inr (Some s)
                 | Some _ \<Rightarrow> Inl ''validation error for AceStepResponse: audio_path'') of
             Inl msg \<Rightarrow> Inl msg
           | Inr ap \<Rightarrow>
               (case pd_get kvs ''metadata'' of
                  None \<Rightarrow> Inr (ap, Map.empty)
                | Some (PDict m) \<Rightarrow> Inr (ap, map_of (rev m))
                | Some _ \<Rightarrow> Inl ''validation error for AceStepResponse: metadata''))
      | _ \<Rightarrow> Inl ''object has no attribute get'')"

definition failure :: "string \<Rightarrow> AceStepResponse" where
  "failure error_msg =
     \<lparr> as_success = False, as_audio_path = None, as_error = Some error_msg,
       as_metadata = Map.empty \<rparr>"

text \<open>
  What \<^verbatim>\<open>AceStepClient.process\<close> returns for each outcome of its POST: the code after
  the \<^verbatim>\<open>await\<close> and the three \<^verbatim>\<open>except\<close> clauses, which catch every exception of
  the \<^verbatim>\<open>try\<close> block.
\<close>

fun response_of :: "env \<Rightarrow> AceStepClient \<Rightarrow> http_outcome \<Rightarrow> AceStepResponse" where
  "response_of e client (Response code body js) =
     (if code \<noteq> 200 then failure (''ACE-Step API error: '' @ show_nat code @ '' - '' @ body)
      else
        (case js of
           Inl msg \<Rightarrow> failure (''ACE-Step client error: '' @ msg)
         | Inr data \<Rightarrow>
             (case decode_generate data of
                Inl msg \<Rightarrow> failure (''ACE-Step client error: '' @ msg)
              | Inr (ap, md) \<Rightarrow>
                  \<lparr> as_success = True, as_audio_path = ap, as_error = None,
                    as_metadata = md \<rparr>)))"
| "response_of e client TimeoutException =
     failure (''ACE-Step request timed out after '' @ repr_float e (timeout client) @ ''s'')"
| "response_of e client (ConnectError msg) =
     failure (''Could not connect to ACE-Step API: '' @ msg)"
| "response_of e client (OtherException msg) = failure (''ACE-Step client error: '' @ msg)"

text \<open>
  \<^verbatim>\<open>AceStepClient.process\<close>: one POST of the payload to \<^verbatim>\<open>/generate\<close> with the
  client's timeout; the function always returns an \<^verbatim>\<open>AceStepResponse\<close>.
\<close>

definition client_process ::
  "env \<Rightarrow> AceStepClient \<Rightarrow> AceStepRequest \<Rightarrow> world \<Rightarrow> AceStepResponse \<times> world" where
  "client_process e client request w =
     (case http_post e (base_url client @ ''/generate'') (timeout client)
             (build_payload request) w of
        (outcome, w1) \<Rightarrow> (response_of e client outcome, w1))"

section \<open>process_manager.py\<close>

text \<open>
  \<^verbatim>\<open>AceStepProcessManager\<close>. The fields \<^verbatim>\<open>_process\<close>, \<^verbatim>\<open>_healthy\<close> and
  \<^verbatim>\<open>_starting\<close> are written without the underscore; the subprocess handle is the index
  of the launch in \<open>launched\<close>.
\<close>

record manager =
  acestep_url :: string
  auto_start :: bool
  startup_timeout :: real
  health_check_interval :: real
  process :: "nat option"
  healthy :: bool
  starting :: bool

definition is_running :: "env \<Rightarrow> manager \<Rightarrow> world \<Rightarrow> bool" where
  "is_running e m w =
     (case process m of None \<Rightarrow> False | Some h \<Rightarrow> exit_status e h (clock w) = None)"

text \<open>
  \<^verbatim>\<open>health_check\<close>: one GET of \<^verbatim>\<open>/health\<close> with a timeout of 5 seconds. A response
  sets \<^verbatim>\<open>_healthy\<close> to whether its status is 200; \<^verbatim>\<open>except Exception\<close> catches every
  exception of the transport, sets \<^verbatim>\<open>_healthy\<close> to false and returns false.
\<close>

definition health_check :: "env \<Rightarrow> manager \<Rightarrow> world \<Rightarrow> bool \<times> manager \<times> world" where
  "health_check e m w =
     (case http_get e (acestep_url m @ ''/health'') 5 w of
        (Response code body js, w1) \<Rightarrow> (code = 200, m\<lparr> healthy := (code = 200) \<rparr>, w1)
      | (_, w1) \<Rightarrow> (False, m\<lparr> healthy := False \<rparr>, w1))"

text \<open>
  \<^verbatim>\<open>_wait_for_healthy\<close>. The loop runs while less than \<^verbatim>\<open>startup_timeout\<close> has passed
  since \<open>start_time\<close>. The first argument bounds the number of iterations: the result is
  \<open>None\<close> when the bound is reached before the loop ends.
\<close>

fun wait_loop ::
  "nat \<Rightarrow> env \<Rightarrow> real \<Rightarrow> manager \<Rightarrow> world \<Rightarrow> (bool \<times> manager \<times> world) option" where
  "wait_loop 0 e start_time m w = None"
| "wait_loop (Suc fuel) e start_time m w =
     (if clock w - start_time < startup_timeout m then
        (case health_check e m w of
           (h, m1, w1) \<Rightarrow>
             if h then Some (True, m1, w1)
             else if process m1 \<noteq> None \<and> exit_status e (the (process m1)) (clock w1) \<noteq> None
             then Some (False, m1, w1)
             else wait_loop fuel e start_time m1 (sleep (health_check_interval m1) w1))
      else Some (False, m, w))"

definition wait_for_healthy ::
  "nat \<Rightarrow> env \<Rightarrow> manager \<Rightarrow> world \<Rightarrow> (bool \<times> manager \<times> world) option" where
  "wait_for_healthy fuel e m w = wait_loop fuel e (clock w) m w"

definition find_python_command :: "env \<Rightarrow> string option" where
  "find_python_command e =
     (if truthy (which e ''uv'') then which e ''uv''
      else if truthy (which e ''python3'') then which e ''python3''
      else if truthy (which e ''python'') then which e ''python''
      else sys_executable e)"

text \<open>The command line that \<^verbatim>\<open>start\<close> builds for the interpreter found.\<close>

definition build_cmd :: "env \<Rightarrow> string \<Rightarrow> string list" where
  "build_cmd e python_cmd =
     (if contains ''uv'' python_cmd then [python_cmd, ''run'', ''acestep-api'']
      else if truthy (which e ''acestep-api'') then [the (which e ''acestep-api'')]
      else [python_cmd, ''-m'', ''ace_step.api''])"

text \<open>
  The \<^verbatim>\<open>try\<close> block of \<^verbatim>\<open>start\<close> with its \<^verbatim>\<open>except Exception\<close> clause: no
  interpreter gives false, an exception of \<^verbatim>\<open>Popen\<close> gives false, and otherwise the
  subprocess is launched, its handle is stored and the result is that of
  \<^verbatim>\<open>_wait_for_healthy\<close>.
\<close>

definition start_try ::
  "nat \<Rightarrow> env \<Rightarrow> manager \<Rightarrow> world \<Rightarrow> (bool \<times> manager \<times> world) option" where
  "start_try fuel e m w =
     (case find_python_command e of
        None \<Rightarrow> Some (False, m, w)
      | Some python_cmd \<Rightarrow>
          (case popen_error e (build_cmd e python_cmd) of
             Some msg \<Rightarrow> Some (False, m, w)
           | None \<Rightarrow>
               wait_for_healthy fuel e
                 (m\<lparr> process := Some (length (launched w)) \<rparr>)
                 (w\<lparr> launched := launched w @ [build_cmd e python_cmd] \<rparr>)))"

text \<open>
  \<^verbatim>\<open>start\<close>: when a start is in flight it only waits; otherwise it sets
  \<^verbatim>\<open>_starting\<close>, runs the \<^verbatim>\<open>try\<close> block, and the \<^verbatim>\<open>finally\<close> clause clears
  \<^verbatim>\<open>_starting\<close>.
\<close>

definition start :: "nat \<Rightarrow> env \<Rightarrow> manager \<Rightarrow> world \<Rightarrow> (bool \<times> manager \<times> world) option" where
  "start fuel e m w =
     (if starting m then wait_for_healthy fuel e m w
      else
        (case start_try fuel e (m\<lparr> starting := True \<rparr>) w of
           None \<Rightarrow> None
         | Some (r, m1, w1) \<Rightarrow> Some (r, m1\<lparr> starting := False \<rparr>, w1)))"

definition ensure_running ::
  "nat \<Rightarrow> env \<Rightarrow> manager \<Rightarrow> world \<Rightarrow> (bool \<times> manager \<times> world) option" where
  "ensure_running fuel e m w =
     (case health_check e m w of
        (h, m1, w1) \<Rightarrow>
          if h then Some (True, m1, w1)
          else if \<not> auto_start m1 then Some (False, m1, w1)
          else if starting m1 then wait_for_healthy fuel e m1 w1
          else start fuel e m1 w1)"

section \<open>server.py\<close>

datatype http_exception = HTTPException nat string

text \<open>\<^verbatim>\<open>aiofiles.os.path.exists\<close>: the answer of the file system, after the time it takes.\<close>

definition exists_check :: "env \<Rightarrow> string \<Rightarrow> world \<Rightarrow> bool \<times> world" where
  "exists_check e path w = (path_exists e path, w\<lparr> clock := clock w + fs_time e \<rparr>)"

text \<open>
  The validation of the input file in \<^verbatim>\<open>process_audio\<close>:
  \<^verbatim>\<open>request.input_path and not await exists(request.input_path)\<close>. The file system is
  asked only for a non-empty path. The result says whether the file is missing.
\<close>

definition input_missing :: "env \<Rightarrow> NuevaRequest \<Rightarrow> world \<Rightarrow> bool \<times> world" where
  "input_missing e request w =
     (if input_path request \<noteq> [] then
        (case exists_check e (input_path request) w of (found, w1) \<Rightarrow> (\<not> found, w1))
      else (False, w))"

text \<open>
  \<^verbatim>\<open>process_audio\<close>, the handler of \<^verbatim>\<open>POST /process\<close>. \<open>start_time\<close> is read on
  entry; then the supervisor is asked to ensure that the engine runs; then the input file
  is validated; then the request is translated and sent. Nothing in the \<^verbatim>\<open>try\<close> block
  raises (the client returns a result for every failure), so its \<^verbatim>\<open>except\<close> clause
  is never entered.
\<close>

definition process_audio ::
  "nat \<Rightarrow> (real \<Rightarrow> real) \<Rightarrow> env \<Rightarrow> AceStepClient \<Rightarrow> NuevaRequest \<Rightarrow> manager \<Rightarrow> world \<Rightarrow>
     ((http_exception + NuevaResponse) \<times> manager \<times> world) option" where
  "process_audio fuel rnd e client request m w =
     (let start_time = clock w in
      case ensure_running fuel e m w of
        None \<Rightarrow> None
      | Some (ok, m1, w1) \<Rightarrow>
          if \<not> ok then
            Some (Inl (HTTPException 503
              ''ACE-Step API is not available. Please ensure ACE-Step is installed.''), m1, w1)
          else
            (case input_missing e request w1 of
               (missing, w2) \<Rightarrow>
                 if missing then
                   Some (Inl (HTTPException 400
                     (''Input file not found: '' @ input_path request)), m1, w2)
                 else
                   (case client_process e client (nueva_to_acestep rnd request) w2 of
                      (acestep_response, w3) \<Rightarrow>
                        Some (Inr (acestep_to_nueva acestep_response request
                                     (py_int ((clock w3 - start_time) * 1000))), m1, w3))))"



text \<open>The processing time that a result of the endpoint reports, when it is a response.\<close>

definition reported_ms ::
  "((http_exception + NuevaResponse) \<times> manager \<times> world) option \<Rightarrow> int option" where
  "reported_ms r =
     (case r of Some (Inr resp, m, w) \<Rightarrow> Some (processing_time_ms resp) | _ \<Rightarrow> None)"

section \<open>bridge.py\<close>

datatype Action = PING | PROCESS | LIST_MODELS | GET_MODEL_INFO | ABORT

text \<open>
  \<^verbatim>\<open>Action(value)\<close>: the member with that value; any other value, a string or not,
  raises \<^verbatim>\<open>ValueError\<close>.
\<close>

fun Action_of :: "pyval \<Rightarrow> Action option" where
  "Action_of (PStr s) =
     (if s = ''ping'' then Some PING
      else if s = ''process'' then Some PROCESS
      else if s = ''list_models'' then Some LIST_MODELS
      else if s = ''get_model_info'' then Some GET_MODEL_INFO
      else if s = ''abort'' then Some ABORT
      else None)"
| "Action_of v = None"

text \<open>
  \<^verbatim>\<open>BridgeRequest\<close> is a dataclass: its fields hold whatever the JSON object held, so
  they are Python values, \<open>PNone\<close> for an absent key.
\<close>

record BridgeRequest =
  action :: Action
  request_id :: pyval
  br_prompt :: pyval
  br_input_path :: pyval
  br_output_path :: pyval
  model :: pyval
  model_params :: pyval
  br_context :: pyval

text \<open>\<^verbatim>\<open>d.get(key, default)\<close> on the decoded JSON object.\<close>

definition get_or :: "pydict \<Rightarrow> string \<Rightarrow> pyval \<Rightarrow> pyval" where
  "get_or d k dflt = (case d k of None \<Rightarrow> dflt | Some v \<Rightarrow> v)"

text \<open>
  \<^verbatim>\<open>BridgeRequest.from_json\<close>. The result is the message of the \<^verbatim>\<open>ValueError\<close> of an
  unknown action, or the request.
\<close>

definition from_json :: "pydict \<Rightarrow> string + BridgeRequest" where
  "from_json d =
     (case Action_of (get_or d ''action'' (PStr ''ping'')) of
        None \<Rightarrow> Inl ''not a valid Action''
      | Some a \<Rightarrow>
          Inr \<lparr> action = a,
                request_id = get_or d ''request_id'' PNone,
                br_prompt = get_or d ''prompt'' PNone,
                br_input_path = get_or d ''input_path'' PNone,
                br_output_path = get_or d ''output_path'' PNone,
                model = get_or d ''model'' PNone,
                model_params = get_or d ''model_params'' (PDict []),
                br_context = get_or d ''context'' (PDict []) \<rparr>)"

record BridgeResponse =
  bs_success :: bool
  bs_request_id :: pyval
  tool_used :: "string option"
  reasoning :: pyval
  message :: pyval
  neural_changes :: "(string \<times> pyval) list option"
  bs_error :: "string option"
  bs_error_code :: "string option"

text \<open>Truthiness of a Python value.\<close>

fun py_truthy :: "pyval \<Rightarrow> bool" where
  "py_truthy PNone = False"
| "py_truthy (PBool b) = b"
| "py_truthy (PInt i) = (i \<noteq> 0)"
| "py_truthy (PFloat x) = (x \<noteq> 0)"
| "py_truthy (PStr s) = (s \<noteq> [])"
| "py_truthy (PList xs) = (xs \<noteq> [])"
| "py_truthy (PDict kvs) = (kvs \<noteq> [])"

text \<open>
  \<^verbatim>\<open>BridgeResponse.to_json\<close>: \<open>success\<close> always, every other field when it is truthy.
\<close>

definition to_json :: "BridgeResponse \<Rightarrow> pydict" where
  "to_json r =
     (let j0 = Map.empty(''success'' \<mapsto> PBool (bs_success r));
          j1 = (if py_truthy (bs_request_id r) then j0(''request_id'' \<mapsto> bs_request_id r) else j0);
          j2 = (if truthy (tool_used r) then j1(''tool_used'' \<mapsto> PStr (the (tool_used r))) else j1);
          j3 = (if py_truthy (reasoning r) then j2(''reasoning'' \<mapsto> reasoning r) else j2);
          j4 = (if py_truthy (message r) then j3(''message'' \<mapsto> message r) else j3);
          j5 = (if truthy (neural_changes r)
                then j4(''neural_changes'' \<mapsto> PDict (the (neural_changes r))) else j4);
          j6 = (if truthy (bs_error r) then j5(''error'' \<mapsto> PStr (the (bs_error r))) else j5)
      in if truthy (bs_error_code r) then j6(''error_code'' \<mapsto> PStr (the (bs_error_code r)))
         else j6)"

text \<open>
  A model processor is outside the bridge: it is given by the JSON text of its
  \<^verbatim>\<open>get_info()\<close>, by what \<^verbatim>\<open>process\<close> does on a call (it raises with a message, or
  returns a dictionary) and by how long the call takes.
\<close>

record proc_call =
  pc_input_path :: string
  pc_output_path :: string
  pc_prompt :: pyval
  pc_params :: pyval

record processor =
  info_json :: string
  proc_process :: "proc_call \<Rightarrow> string + pydict"
  proc_time :: "proc_call \<Rightarrow> real"

text \<open>
  \<^verbatim>\<open>AIBridge\<close>: the loaded models in the order of their loading, and the calls of
  \<^verbatim>\<open>model.process\<close> made so far (model id and arguments).
\<close>

record AIBridge =
  models :: "(string \<times> processor) list"
  calls :: "(string \<times> proc_call) list"

text \<open>
  \<^verbatim>\<open>model_id not in self.models\<close> for a truthy \<open>model_id\<close>: a list or a dictionary is
  not hashable and the test raises \<^verbatim>\<open>TypeError\<close>; a string is looked up; any other
  value is not a key.
\<close>

fun lookup_model :: "(string \<times> processor) list \<Rightarrow> pyval \<Rightarrow> string + (string \<times> processor) option"
  where
  "lookup_model ms (PStr s) = Inr (map_option (\<lambda>p. (s, p)) (map_of ms s))"
| "lookup_model ms (PList xs) = Inl ''unhashable type: list''"
| "lookup_model ms (PDict kvs) = Inl ''unhashable type: dict''"
| "lookup_model ms v = Inr None"

text \<open>\<^verbatim>\<open>Path(value)\<close>: a string gives a path, any other value raises \<^verbatim>\<open>TypeError\<close>.\<close>

fun as_path :: "pyval \<Rightarrow> string + string" where
  "as_path (PStr s) = Inr s"
| "as_path v = Inl ''expected str, bytes or os.PathLike object''"

definition error_response :: "pyval \<Rightarrow> string \<Rightarrow> string \<Rightarrow> BridgeResponse" where
  "error_response rid err code =
     \<lparr> bs_success = False, bs_request_id = rid, tool_used = None, reasoning = PNone,
       message = PNone, neural_changes = None, bs_error = Some err,
       bs_error_code = Some code \<rparr>"

definition message_response :: "pyval \<Rightarrow> string \<Rightarrow> BridgeResponse" where
  "message_response rid msg =
     \<lparr> bs_success = True, bs_request_id = rid, tool_used = None, reasoning = PNone,
       message = PStr msg, neural_changes = None, bs_error = None, bs_error_code = None \<rparr>"

text \<open>
  \<^verbatim>\<open>_handle_process\<close>. \<open>fmt\<close> is how an f-string prints a Python value. The checks
  come in the order of the source: the model, then \<open>input_path\<close>, then \<open>output_path\<close>;
  only then the processor is called, inside the \<^verbatim>\<open>try\<close> whose \<^verbatim>\<open>except\<close> clause
  answers \<open>PROCESSING_ERROR\<close>. The result is an exception that escapes the function
  (its message), or the response.
\<close>

definition handle_process ::
  "(pyval \<Rightarrow> string) \<Rightarrow> BridgeRequest \<Rightarrow> AIBridge \<Rightarrow> (string + BridgeResponse) \<times> AIBridge" where
  "handle_process fmt request b =
     (if \<not> py_truthy (model request) then
        (Inr (error_response (request_id request)
                (''Model not found: '' @ fmt (model request)) ''MODEL_NOT_FOUND''), b)
      else
        (case lookup_model (models b) (model request) of
           Inl exc \<Rightarrow> (Inl exc, b)
         | Inr None \<Rightarrow>
             (Inr (error_response (request_id request)
                     (''Model not found: '' @ fmt (model request)) ''MODEL_NOT_FOUND''), b)
         | Inr (Some (model_id, proc)) \<Rightarrow>
             if \<not> py_truthy (br_input_path request) then
               (Inr (error_response (request_id request) ''input_path is required''
                       ''MISSING_PARAMETER''), b)
             else if \<not> py_truthy (br_output_path request) then
               (Inr (error_response (request_id request) ''output_path is required''
                       ''MISSING_PARAMETER''), b)
             else
               (case as_path (br_input_path request) of
                  Inl exc \<Rightarrow>
                    (Inr (error_response (request_id request) exc ''PROCESSING_ERROR''), b)
                | Inr ip \<Rightarrow>
                    (case as_path (br_output_path request) of
                       Inl exc \<Rightarrow>
                         (Inr (error_response (request_id request) exc ''PROCESSING_ERROR''), b)
                     | Inr op \<Rightarrow>
                         (let call = \<lparr> pc_input_path = ip, pc_output_path = op,
                                       pc_prompt = br_prompt request,
                                       pc_params = model_params request \<rparr>;
                              b1 = b\<lparr> calls := calls b @ [(model_id, call)] \<rparr>
                          in case proc_process proc call of
                               Inl exc \<Rightarrow>
                                 (Inr (error_response (request_id request) exc
                                         ''PROCESSING_ERROR''), b1)
                             | Inr result \<Rightarrow>
                                 (Inr \<lparr> bs_success = True,
                                        bs_request_id = request_id request,
                                        tool_used = Some ''neural'',
                                        reasoning = get_or result ''reasoning'' (PStr []),
                                        message = get_or result ''message''
                                                    (PStr ''Processing complete''),
                                        neural_changes = Some
                                          [(''model'', PStr model_id),
                                           (''output_path'', PStr op),
                                           (''processing_time_ms'',
                                            PInt (py_int (proc_time proc call * 1000))),
                                           (''intentional_artifacts'',
                                            get_or result ''intentional_artifacts'' (PList []))],
                                        bs_error = None, bs_error_code = None \<rparr>, b1))))))"

text \<open>\<^verbatim>\<open>json.dumps\<close> of a list of model ids (ids need no escaping).\<close>

fun json_items :: "string list \<Rightarrow> string" where
  "json_items [] = []"
| "json_items [k] = [CHR 0x22] @ k @ [CHR 0x22]"
| "json_items (k # ks) = [CHR 0x22] @ k @ [CHR 0x22] @ '', '' @ json_items ks"

definition handle_list_models :: "BridgeRequest \<Rightarrow> AIBridge \<Rightarrow> BridgeResponse" where
  "handle_list_models request b =
     message_response (request_id request) (''['' @ json_items (map fst (models b)) @ '']'')"

definition handle_get_model_info ::
  "(pyval \<Rightarrow> string) \<Rightarrow> BridgeRequest \<Rightarrow> AIBridge \<Rightarrow> string + BridgeResponse" where
  "handle_get_model_info fmt request b =
     (if \<not> py_truthy (model request) then
        Inr (error_response (request_id request)
               (''Model not found: '' @ fmt (model request)) ''MODEL_NOT_FOUND'')
      else
        (case lookup_model (models b) (model request) of
           Inl exc \<Rightarrow> Inl exc
         | Inr None \<Rightarrow>
             Inr (error_response (request_id request)
                    (''Model not found: '' @ fmt (model request)) ''MODEL_NOT_FOUND'')
         | Inr (Some (model_id, proc)) \<Rightarrow>
             Inr (message_response (request_id request) (info_json proc))))"

text \<open>
  \<^verbatim>\<open>handle_request\<close>: the dispatch on the action, inside the \<^verbatim>\<open>try\<close> whose
  \<^verbatim>\<open>except\<close> clause turns an escaping exception into a \<open>PROCESSING_ERROR\<close> response.
  The five actions are all the members of \<^verbatim>\<open>Action\<close>, so the final \<^verbatim>\<open>else\<close> is never
  taken.
\<close>

definition handle_request ::
  "(pyval \<Rightarrow> string) \<Rightarrow> BridgeRequest \<Rightarrow> AIBridge \<Rightarrow> BridgeResponse \<times> AIBridge" where
  "handle_request fmt request b =
     (case (case action request of
              PING \<Rightarrow> (Inr (message_response (request_id request) ''pong''), b)
            | LIST_MODELS \<Rightarrow> (Inr (handle_list_models request b), b)
            | GET_MODEL_INFO \<Rightarrow> (handle_get_model_info fmt request b, b)
            | PROCESS \<Rightarrow> handle_process fmt request b
            | ABORT \<Rightarrow> (Inr (message_response (request_id request) ''Abort requested''), b)) of
        (Inl exc, b1) \<Rightarrow> (error_response (request_id request) exc ''PROCESSING_ERROR'', b1)
      | (Inr response, b1) \<Rightarrow> (response, b1))"

section \<open>Outcomes that count as success\<close>

text \<open>The outcome of a health probe that counts as healthy: a response with status 200.\<close>

fun probe_ok :: "http_outcome \<Rightarrow> bool" where
  "probe_ok (Response code body js) = (code = 200)"
| "probe_ok TimeoutException = False"
| "probe_ok (ConnectError msg) = False"
| "probe_ok (OtherException msg) = False"

text \<open>The world after one health probe: the GET is logged and its duration has passed.\<close>

definition after_probe :: "env \<Rightarrow> manager \<Rightarrow> world \<Rightarrow> world" where
  "after_probe e m w =
     w\<lparr> clock := clock w + get_time e (length (gets w)),
        gets := gets w @ [(acestep_url m @ ''/health'', 5)] \<rparr>"


section \<open>Concurrent callers of the supervisor\<close>

text \<open>
  The event loop runs one task at a time, and a task gives up control only at an
  \<^verbatim>\<open>await\<close> that suspends: the GET of \<open>health_check\<close> and \<^verbatim>\<open>asyncio.sleep\<close>. A task
  that runs \<^verbatim>\<open>ensure_running()\<close> is therefore at one of these places:
  \<^item> \<open>Entry\<close>: called, not yet run;
  \<^item> \<open>ProbeFirst k ready\<close>: suspended in the health check of \<^verbatim>\<open>ensure_running\<close>, on
    the GET number \<open>k\<close>, which completes at the time \<open>ready\<close>;
  \<^item> \<open>ProbeWait own st k ready\<close>: suspended in the health check of the loop of
    \<^verbatim>\<open>_wait_for_healthy\<close>, whose \<open>start_time\<close> is \<open>st\<close>;
  \<^item> \<open>Sleeping own st wake\<close>: suspended in the \<^verbatim>\<open>asyncio.sleep\<close> of that loop until
    the time \<open>wake\<close>;
  \<^item> \<open>Done r\<close>: returned \<open>r\<close>.
  The flag \<open>own\<close> says that \<^verbatim>\<open>_wait_for_healthy\<close> was called from the \<^verbatim>\<open>try\<close> block
  of \<^verbatim>\<open>start\<close>: this task has set \<^verbatim>\<open>_starting\<close> and launched the engine, and the
  \<^verbatim>\<open>finally\<close> clause of \<^verbatim>\<open>start\<close> runs when its wait ends. Without the flag the task
  waits on a start that another task has in flight.
\<close>

datatype pc =
    Entry
  | ProbeFirst nat real
  | ProbeWait bool real nat real
  | Sleeping bool real real
  | Done bool

fun owner :: "pc \<Rightarrow> bool" where
  "owner (ProbeWait own st k ready) = own"
| "owner (Sleeping own st wake) = own"
| "owner p = False"

record sys =
  mgr :: manager
  wld :: world
  tasks :: "pc list"

text \<open>\<open>health_check\<close> up to its \<^verbatim>\<open>await\<close>: the GET is issued; it completes after its duration.\<close>

definition issue_probe :: "env \<Rightarrow> manager \<Rightarrow> world \<Rightarrow> (nat \<times> real) \<times> world" where
  "issue_probe e m w =
     ((length (gets w), clock w + get_time e (length (gets w))),
      w\<lparr> gets := gets w @ [(acestep_url m @ ''/health'', 5)] \<rparr>)"

text \<open>
  The end of \<^verbatim>\<open>_wait_for_healthy\<close> with the result \<open>r\<close>: for the task that owns the
  start, the \<^verbatim>\<open>finally\<close> clause of \<^verbatim>\<open>start\<close> clears \<^verbatim>\<open>_starting\<close>.
\<close>

definition finish :: "bool \<Rightarrow> bool \<Rightarrow> manager \<Rightarrow> world \<Rightarrow> pc \<times> manager \<times> world" where
  "finish own r m w = (Done r, if own then m\<lparr> starting := False \<rparr> else m, w)"

text \<open>
  The head of the loop of \<^verbatim>\<open>_wait_for_healthy\<close>: while the timeout has not passed, the
  next health check is begun; otherwise the function returns false.
\<close>

definition loop_head ::
  "env \<Rightarrow> bool \<Rightarrow> real \<Rightarrow> manager \<Rightarrow> world \<Rightarrow> pc \<times> manager \<times> world" where
  "loop_head e own st m w =
     (if clock w - st < startup_timeout m then
        (case issue_probe e m w of ((k, ready), w1) \<Rightarrow> (ProbeWait own st k ready, m, w1))
      else finish own False m w)"

text \<open>
  \<^verbatim>\<open>start\<close> from its entry (with \<^verbatim>\<open>_starting\<close> false) to its first suspension:
  \<^verbatim>\<open>_starting\<close> is set, the command is built, the subprocess is launched and
  \<^verbatim>\<open>_wait_for_healthy\<close> is entered. No \<^verbatim>\<open>await\<close> suspends in between.
\<close>

definition begin_start :: "env \<Rightarrow> manager \<Rightarrow> world \<Rightarrow> pc \<times> manager \<times> world" where
  "begin_start e m w =
     (case find_python_command e of
        None \<Rightarrow> finish True False (m\<lparr> starting := True \<rparr>) w
      | Some python_cmd \<Rightarrow>
          (case popen_error e (build_cmd e python_cmd) of
             Some msg \<Rightarrow> finish True False (m\<lparr> starting := True \<rparr>) w
           | None \<Rightarrow>
               loop_head e True (clock w)
                 (m\<lparr> starting := True, process := Some (length (launched w)) \<rparr>)
                 (w\<lparr> launched := launched w @ [build_cmd e python_cmd] \<rparr>)))"

text \<open>
  What a task does when the event loop resumes it, up to its next suspension or its
  return. After the first health check this is the rest of \<^verbatim>\<open>ensure_running\<close>: the test
  of \<^verbatim>\<open>_starting\<close> and the entry of \<^verbatim>\<open>start\<close> are not separated by a suspension.
\<close>

fun resume :: "env \<Rightarrow> pc \<Rightarrow> manager \<Rightarrow> world \<Rightarrow> pc \<times> manager \<times> world" where
  "resume e Entry m w =
     (case issue_probe e m w of ((k, ready), w1) \<Rightarrow> (ProbeFirst k ready, m, w1))"
| "resume e (ProbeFirst k ready) m w =
     (if probe_ok (get_outcome e k) then (Done True, m\<lparr> healthy := True \<rparr>, w)
      else if \<not> auto_start m then (Done False, m\<lparr> healthy := False \<rparr>, w)
      else if starting m then loop_head e False (clock w) (m\<lparr> healthy := False \<rparr>) w
      else begin_start e (m\<lparr> healthy := False \<rparr>) w)"
| "resume e (ProbeWait own st k ready) m w =
     (if probe_ok (get_outcome e k) then finish own True (m\<lparr> healthy := True \<rparr>) w
      else if process m \<noteq> None \<and> exit_status e (the (process m)) (clock w) \<noteq> None
      then finish own False (m\<lparr> healthy := False \<rparr>) w
      else (Sleeping own st (clock w + max 0 (health_check_interval m)),
            m\<lparr> healthy := False \<rparr>, w))"
| "resume e (Sleeping own st wake) m w = loop_head e own st m w"
| "resume e (Done r) m w = (Done r, m, w)"

text \<open>A suspended task can be resumed once what it waits for has happened.\<close>

fun enabled :: "pc \<Rightarrow> world \<Rightarrow> bool" where
  "enabled Entry w = True"
| "enabled (ProbeFirst k ready) w = (ready \<le> clock w)"
| "enabled (ProbeWait own st k ready) w = (ready \<le> clock w)"
| "enabled (Sleeping own st wake) w = (wake \<le> clock w)"
| "enabled (Done r) w = False"

text \<open>
  One step of the event loop: after the time \<open>dt\<close> has passed, task \<open>i\<close> is resumed if it
  can be; otherwise only the time passes.
\<close>

definition step :: "env \<Rightarrow> nat \<times> real \<Rightarrow> sys \<Rightarrow> sys" where
  "step e ev s =
     (let i = fst ev;
          w = (wld s)\<lparr> clock := clock (wld s) + max 0 (snd ev) \<rparr>
      in if i < length (tasks s) \<and> enabled (tasks s ! i) w then
           (case resume e (tasks s ! i) (mgr s) w of
              (p, m1, w1) \<Rightarrow> \<lparr> mgr = m1, wld = w1, tasks = (tasks s)[i := p] \<rparr>)
         else s\<lparr> wld := w \<rparr>)"

definition run_loop :: "env \<Rightarrow> (nat \<times> real) list \<Rightarrow> sys \<Rightarrow> sys" where
  "run_loop e evs s = foldl (\<lambda>s ev. step e ev s) s evs"

text \<open>
  Where a task stands with respect to the test of \<^verbatim>\<open>_starting\<close> in
  \<^verbatim>\<open>ensure_running\<close>: a \<open>fresh\<close> task has not reached the test yet (it has not run, or
  its first health check has not returned); a \<open>waiter\<close> has found a start in flight and
  runs \<^verbatim>\<open>_wait_for_healthy\<close> on behalf of no start of its own.
\<close>

fun fresh :: "pc \<Rightarrow> bool" where
  "fresh Entry = True"
| "fresh (ProbeFirst k ready) = True"
| "fresh p = False"

fun waiter :: "pc \<Rightarrow> bool" where
  "waiter (ProbeWait own st k ready) = (\<not> own)"
| "waiter (Sleeping own st wake) = (\<not> own)"
| "waiter p = False"


section \<open>Concrete inputs\<close>

text \<open>The request of the cover scenario: cover mode, a jazz prompt, intensity one half.\<close>

definition scenario_request :: NuevaRequest where
  "scenario_request =
     \<lparr> mode = COVER, input_path = ''in.wav'', output_path = ''out.wav'',
       prompt = Some ''jazz version'', intensity = 0.5,
       preserve_melody = True, preserve_tempo = True, preserve_key = True,
       extract_target = None, add_layers = None, remove_layers = None,
       duration_seconds = None, seed = None, quantization = None,
       extra_params = Map.empty \<rparr>"

text \<open>A second request with a larger intensity.\<close>

definition strong_request :: NuevaRequest where
  "strong_request = scenario_request\<lparr> mode := TRANSFORM, intensity := 1 \<rparr>"

text \<open>An engine result that reports a failure.\<close>

definition failed_response :: AceStepResponse where
  "failed_response =
     \<lparr> as_success = False, as_audio_path = None,
       as_error = Some ''ACE-Step API error: 500 - boom'', as_metadata = Map.empty \<rparr>"

text \<open>An extract request whose target is the empty string.\<close>

definition empty_target_request :: NuevaRequest where
  "empty_target_request = scenario_request\<lparr> mode := EXTRACT, extract_target := Some [] \<rparr>"

text \<open>A cover request with seed 0 whose extra parameters name a computed key.\<close>

definition override_request :: NuevaRequest where
  "override_request =
     scenario_request\<lparr> seed := Some 0,
       extra_params := Map.empty(''preserve_melody'' \<mapsto> PBool False,
                                 ''num_inference_steps'' \<mapsto> PInt 8) \<rparr>"

definition world0 :: world where
  "world0 = \<lparr> clock = 0, gets = [], posts = [], launched = [] \<rparr>"

definition default_manager :: manager where
  "default_manager =
     \<lparr> acestep_url = ''http://localhost:8000'', auto_start = True, startup_timeout = 120,
       health_check_interval = 5, process = None, healthy = False, starting = False \<rparr>"

definition quick_manager :: manager where
  "quick_manager = default_manager\<lparr> startup_timeout := 10 \<rparr>"

definition default_client :: AceStepClient where
  "default_client = \<lparr> base_url = ''http://localhost:8000'', timeout = 300 \<rparr>"

definition down_env :: env where
  "down_env =
     \<lparr> get_outcome = (\<lambda>n. ConnectError ''All connection attempts failed''),
       get_time = (\<lambda>n. 1),
       post_outcome = (\<lambda>n. ConnectError ''All connection attempts failed''),
       post_time = (\<lambda>n. 1),
       which = (\<lambda>c. if c = ''uv'' then Some ''/usr/bin/uv'' else None),
       sys_executable = Some ''/usr/bin/python3'',
       popen_error = (\<lambda>cmd. None),
       exit_status = (\<lambda>h t. None),
       path_exists = (\<lambda>p. False),
       fs_time = 0.5,
       repr_float = (\<lambda>x. ''300.0'') \<rparr>"

definition healthy_env :: env where
  "healthy_env =
     down_env\<lparr> get_outcome := (\<lambda>n. Response 200 ''ok'' (Inr (PDict []))),
               get_time := (\<lambda>n. 2),
               post_outcome := (\<lambda>n. Response 200 ''{}'' (Inr (PDict [(''audio_path'', PStr ''gen.wav'')]))),
               path_exists := (\<lambda>p. True) \<rparr>"

text \<open>The world in which the handler calls the engine client in the healthy scenario.\<close>

definition call_world :: world where
  "call_world =
     \<lparr> clock = 2.5, gets = [(''http://localhost:8000/health'', 5)], posts = [],
       launched = [] \<rparr>"



text \<open>A bridge with one loaded model whose processor always succeeds.\<close>

definition stub_processor :: processor where
  "stub_processor =
     \<lparr> info_json = ''{}'',
       proc_process = (\<lambda>call. Inr (Map.empty(''message'' \<mapsto> PStr ''done''))),
       proc_time = (\<lambda>call. 1) \<rparr>"

definition stub_bridge :: AIBridge where
  "stub_bridge = \<lparr> models = [(''ace-step'', stub_processor)], calls = [] \<rparr>"

text \<open>How the stub prints a value in an f-string: only \<^verbatim>\<open>None\<close> and strings occur.\<close>

fun stub_fmt :: "pyval \<Rightarrow> string" where
  "stub_fmt (PStr s) = s"
| "stub_fmt v = ''None''"

text \<open>Two process requests without \<open>output_path\<close>: one names the loaded model, one names none.\<close>

definition no_output_request :: pydict where
  "no_output_request =
     Map.empty(''action'' \<mapsto> PStr ''process'', ''model'' \<mapsto> PStr ''ace-step'',
               ''input_path'' \<mapsto> PStr ''in.wav'')"

definition no_model_request :: pydict where
  "no_model_request =
     Map.empty(''action'' \<mapsto> PStr ''process'', ''input_path'' \<mapsto> PStr ''in.wav'')"


section \<open>Properties of the mode adapter\<close>

lemma mode_kwargs_steps: "mode_kwargs request ''num_inference_steps'' = None"
  by (simp add: mode_kwargs_def Let_def)

lemma seed_kwargs_steps:
  "seed_kwargs request k ''num_inference_steps'' = k ''num_inference_steps''"
  by (simp add: seed_kwargs_def split: option.splits)

lemma kwargs_steps:
  "kwargs (nueva_to_acestep rnd request) ''num_inference_steps'' =
     extra_params request ''num_inference_steps''"
  by (simp add: nueva_to_acestep_def map_add_def seed_kwargs_steps mode_kwargs_steps
      split: option.splits)

lemma build_payload_steps:
  "build_payload a ''num_inference_steps'' =
     Some (case kwargs a ''num_inference_steps'' of
             None \<Rightarrow> PInt (num_inference_steps a)
           | Some v \<Rightarrow> v)"
  by (simp add: build_payload_def Let_def map_add_def split: option.splits)

text \<open>
  C10. For every request, the engine task built by \<open>nueva_to_acestep\<close> has
  \<open>num_inference_steps = 50\<close>, the schema default, whatever the fields of the request (the
  intensity among them) are. The only way to another number of steps is \<open>extra_params\<close>:
  its entries are copied into \<open>kwargs\<close>, and in the payload that the client sends, the
  key \<open>num_inference_steps\<close> holds the entry of \<open>extra_params\<close> when there is one, and 50
  otherwise.
\<close>

theorem C10_num_inference_steps_default:
  "num_inference_steps (nueva_to_acestep rnd request) = 50 \<and>
   build_payload (nueva_to_acestep rnd request) ''num_inference_steps'' =
     Some (case extra_params request ''num_inference_steps'' of
             None \<Rightarrow> PInt 50
           | Some v \<Rightarrow> v)"
proof -
  have n: "num_inference_steps (nueva_to_acestep rnd request) = 50"
    by (simp add: nueva_to_acestep_def)
  show ?thesis
    unfolding build_payload_steps kwargs_steps n by simp
qed

lemma contains_self: "contains e e"
  by (cases e) simp_all

lemma contains_append: "contains e (p @ e)"
  by (induction p) (simp_all add: contains_self)

text \<open>
  C1. For every rounding operator \<open>rnd\<close> that is monotone and leaves 0, 3, 12 and 15
  unchanged (they are floats), the guidance scale of the engine task is
  \<open>3.0 + intensity * 12.0\<close> in float arithmetic: the product of the intensity and 12,
  rounded, added to 3, and the sum rounded (with exact arithmetic, \<open>3 + intensity * 12\<close>).
  It lies in \<open>[3, 15]\<close> when the intensity lies in \<open>[0, 1]\<close>, it does not decrease when
  the intensity grows, and it depends on the intensity only.
\<close>

theorem C1_guidance_scale:
  assumes m: "mono rnd" and r0: "rnd 0 = 0" and r3: "rnd 3 = 3"
    and r12: "rnd 12 = 12" and r15: "rnd 15 = 15"
  shows "guidance_scale (nueva_to_acestep rnd request) =
           rnd (3 + rnd (intensity request * 12)) \<and>
         (0 \<le> intensity request \<and> intensity request \<le> 1 \<longrightarrow>
            3 \<le> guidance_scale (nueva_to_acestep rnd request) \<and>
            guidance_scale (nueva_to_acestep rnd request) \<le> 15) \<and>
         (intensity request \<le> intensity request' \<longrightarrow>
            guidance_scale (nueva_to_acestep rnd request) \<le>
            guidance_scale (nueva_to_acestep rnd request')) \<and>
         (intensity request = intensity request' \<longrightarrow>
            guidance_scale (nueva_to_acestep rnd request) =
            guidance_scale (nueva_to_acestep rnd request'))"
proof -
  have gs: "\<And>q. guidance_scale (nueva_to_acestep rnd q) = rnd (3 + rnd (intensity q * 12))"
    by (simp add: nueva_to_acestep_def fadd_def fmul_def)
  have eq: "guidance_scale (nueva_to_acestep rnd request) =
              rnd (3 + rnd (intensity request * 12))"
    by (rule gs)
  have bounds: "3 \<le> guidance_scale (nueva_to_acestep rnd request) \<and>
                guidance_scale (nueva_to_acestep rnd request) \<le> 15"
    if a: "0 \<le> intensity request \<and> intensity request \<le> 1"
  proof -
    have "0 \<le> intensity request * 12" "intensity request * 12 \<le> 12"
      using a by simp_all
    then have "rnd 0 \<le> rnd (intensity request * 12)" "rnd (intensity request * 12) \<le> rnd 12"
      using monoD [OF m] by blast+
    then have "3 \<le> 3 + rnd (intensity request * 12)" "3 + rnd (intensity request * 12) \<le> 15"
      using r0 r12 by simp_all
    then have "rnd 3 \<le> rnd (3 + rnd (intensity request * 12))"
      "rnd (3 + rnd (intensity request * 12)) \<le> rnd 15"
      using monoD [OF m] by blast+
    then show ?thesis
      using r3 r15 by (simp add: gs)
  qed
  have monotone: "guidance_scale (nueva_to_acestep rnd request) \<le>
                  guidance_scale (nueva_to_acestep rnd request')"
    if a: "intensity request \<le> intensity request'"
  proof -
    have "intensity request * 12 \<le> intensity request' * 12"
      using a by simp
    then have "rnd (intensity request * 12) \<le> rnd (intensity request' * 12)"
      by (rule monoD [OF m])
    then have "3 + rnd (intensity request * 12) \<le> 3 + rnd (intensity request' * 12)"
      by simp
    then have "rnd (3 + rnd (intensity request * 12)) \<le> rnd (3 + rnd (intensity request' * 12))"
      by (rule monoD [OF m])
    then show ?thesis
      by (simp add: gs)
  qed
  have det: "guidance_scale (nueva_to_acestep rnd request) =
             guidance_scale (nueva_to_acestep rnd request')"
    if "intensity request = intensity request'"
    using that by (simp add: gs)
  from eq bounds monotone det show ?thesis
    by blast
qed

theorem C1_guidance_scale_witness:
  "mono (\<lambda>x::real. x) \<and>
   0 \<le> intensity scenario_request \<and> intensity scenario_request \<le> 1 \<and>
   intensity scenario_request \<le> intensity strong_request \<and>
   guidance_scale (nueva_to_acestep (\<lambda>x. x) scenario_request) =
     3 + intensity scenario_request * 12 \<and>
   guidance_scale (nueva_to_acestep (\<lambda>x. x) scenario_request) = 9 \<and>
   guidance_scale (nueva_to_acestep (\<lambda>x. x) strong_request) = 15 \<and>
   3 \<le> guidance_scale (nueva_to_acestep (\<lambda>x. x) scenario_request) \<and>
   guidance_scale (nueva_to_acestep (\<lambda>x. x) scenario_request) \<le> 15 \<and>
   guidance_scale (nueva_to_acestep (\<lambda>x. x) scenario_request) \<le>
     guidance_scale (nueva_to_acestep (\<lambda>x. x) strong_request)"
proof -
  have m: "mono (\<lambda>x::real. x)"
    by (simp add: mono_def)
  have i: "0 \<le> intensity scenario_request \<and> intensity scenario_request \<le> 1 \<and>
           intensity scenario_request \<le> intensity strong_request"
    by (simp add: scenario_request_def strong_request_def)
  have nine: "3 + intensity scenario_request * 12 = 9"
    by (simp add: scenario_request_def)
  have fifteen: "3 + intensity strong_request * 12 = 15"
    by (simp add: strong_request_def)
  show ?thesis
    using C1_guidance_scale [OF m, of scenario_request strong_request]
      C1_guidance_scale [OF m, of strong_request strong_request] m i nine fifteen
    by simp
qed

text \<open>
  C2 (as amended). For every engine result with \<open>success = False\<close>, the response of
  \<open>acestep_to_nueva\<close> has \<open>success = False\<close>, the error code \<open>ACESTEP_ERROR\<close>, the engine's
  error as its error message, and the description
  \<open>ACE-Step processing failed: \<close> followed by the engine's error string.
\<close>

theorem C2_engine_failure:
  "\<not> as_success acestep_response \<Longrightarrow>
     success (acestep_to_nueva acestep_response original_request time_ms) = False \<and>
     error_code (acestep_to_nueva acestep_response original_request time_ms) =
       Some ''ACESTEP_ERROR'' \<and>
     error_message (acestep_to_nueva acestep_response original_request time_ms) =
       as_error acestep_response \<and>
     description (acestep_to_nueva acestep_response original_request time_ms) =
       ''ACE-Step processing failed: '' @ fmt_opt (as_error acestep_response) \<and>
     (\<forall>e. as_error acestep_response = Some e \<longrightarrow>
        contains e (description (acestep_to_nueva acestep_response original_request time_ms)))"
  by (simp add: acestep_to_nueva_def contains_append del: append.simps)

theorem C2_engine_failure_witness:
  "\<not> as_success failed_response \<and>
   success (acestep_to_nueva failed_response scenario_request 1234) = False \<and>
   error_code (acestep_to_nueva failed_response scenario_request 1234) = Some ''ACESTEP_ERROR'' \<and>
   description (acestep_to_nueva failed_response scenario_request 1234) =
     ''ACE-Step processing failed: ACE-Step API error: 500 - boom'' \<and>
   contains ''ACE-Step API error: 500 - boom''
     (description (acestep_to_nueva failed_response scenario_request 1234))"
  using C2_engine_failure [of failed_response scenario_request 1234]
  by (simp add: failed_response_def)

text \<open>
  The claim as stated, with the error code \<open>ENGINE_ERROR\<close>, fails on the failed engine
  result above.
\<close>

theorem C2_engine_error_code_counterexample:
  "\<not> (success (acestep_to_nueva failed_response scenario_request 1234) = False \<and>
       error_code (acestep_to_nueva failed_response scenario_request 1234) =
         Some ''ENGINE_ERROR'')"
  by (simp add: acestep_to_nueva_def failed_response_def)

text \<open>
  C5 (as amended). The \<open>kwargs\<close> of the engine task map every key of \<open>extra_params\<close> to
  its \<open>extra_params\<close> value. For a key that \<open>extra_params\<close> does not hold: the three
  \<open>preserve_*\<close> entries are present iff the mode is cover; \<open>target\<close> is present iff the mode
  is extract and \<open>extract_target\<close> is a non-empty string; \<open>add_instruments\<close> and
  \<open>remove_instruments\<close> are present iff the mode is layer and the list is non-empty;
  \<open>seed\<close> is present iff the seed is not \<open>None\<close>; and no other key is present.
\<close>

theorem C5_kwargs:
  "(\<forall>key v. extra_params request key = Some v \<longrightarrow>
       kwargs (nueva_to_acestep rnd request) key = Some v) \<and>
   (extra_params request ''preserve_melody'' = None \<longrightarrow>
       kwargs (nueva_to_acestep rnd request) ''preserve_melody'' =
         (if mode request = COVER then Some (PBool (preserve_melody request)) else None)) \<and>
   (extra_params request ''preserve_tempo'' = None \<longrightarrow>
       kwargs (nueva_to_acestep rnd request) ''preserve_tempo'' =
         (if mode request = COVER then Some (PBool (preserve_tempo request)) else None)) \<and>
   (extra_params request ''preserve_key'' = None \<longrightarrow>
       kwargs (nueva_to_acestep rnd request) ''preserve_key'' =
         (if mode request = COVER then Some (PBool (preserve_key request)) else None)) \<and>
   (extra_params request ''target'' = None \<longrightarrow>
       kwargs (nueva_to_acestep rnd request) ''target'' =
         (if mode request = EXTRACT \<and> truthy (extract_target request)
          then Some (PStr (the (extract_target request))) else None)) \<and>
   (extra_params request ''add_instruments'' = None \<longrightarrow>
       kwargs (nueva_to_acestep rnd request) ''add_instruments'' =
         (if mode request = LAYER \<and> truthy (add_layers request)
          then Some (PList (map PStr (the (add_layers request)))) else None)) \<and>
   (extra_params request ''remove_instruments'' = None \<longrightarrow>
       kwargs (nueva_to_acestep rnd request) ''remove_instruments'' =
         (if mode request = LAYER \<and> truthy (remove_layers request)
          then Some (PList (map PStr (the (remove_layers request)))) else None)) \<and>
   (extra_params request ''seed'' = None \<longrightarrow>
       kwargs (nueva_to_acestep rnd request) ''seed'' = map_option PInt (seed request)) \<and>
   (\<forall>key. extra_params request key = None \<and>
       key \<notin> {''preserve_melody'', ''preserve_tempo'', ''preserve_key'', ''target'',
                ''add_instruments'', ''remove_instruments'', ''seed''} \<longrightarrow>
       kwargs (nueva_to_acestep rnd request) key = None)"
  by (simp add: nueva_to_acestep_def seed_kwargs_def mode_kwargs_def map_add_def Let_def
      split: option.splits)

theorem C5_kwargs_witness:
  "extra_params override_request ''preserve_melody'' = Some (PBool False) \<and>
   kwargs (nueva_to_acestep (\<lambda>x. x) override_request) ''preserve_melody'' = Some (PBool False) \<and>
   extra_params override_request ''preserve_tempo'' = None \<and>
   kwargs (nueva_to_acestep (\<lambda>x. x) override_request) ''preserve_tempo'' = Some (PBool True) \<and>
   extra_params override_request ''target'' = None \<and>
   kwargs (nueva_to_acestep (\<lambda>x. x) override_request) ''target'' = None \<and>
   extra_params override_request ''seed'' = None \<and>
   kwargs (nueva_to_acestep (\<lambda>x. x) override_request) ''seed'' = Some (PInt 0)"
  using C5_kwargs [of override_request "\<lambda>x. x"]
  by (simp add: override_request_def scenario_request_def)

text \<open>
  The claim as stated fails for an extract request whose \<open>extract_target\<close> is set to the
  empty string: the target is set and the mode is extract, and no \<open>target\<close> entry is made.
\<close>

theorem C5_empty_target_counterexample:
  "\<not> ((kwargs (nueva_to_acestep (\<lambda>x. x) empty_target_request) ''target'' \<noteq> None) =
       (mode empty_target_request = EXTRACT \<and> extract_target empty_target_request \<noteq> None))"
  by (simp add: nueva_to_acestep_def empty_target_request_def scenario_request_def
      seed_kwargs_def mode_kwargs_def)

section \<open>Lemmas on the supervisor and the client\<close>

lemma after_probe_simps:
  "clock (after_probe e m w) = clock w + get_time e (length (gets w))"
  "gets (after_probe e m w) = gets w @ [(acestep_url m @ ''/health'', 5)]"
  "posts (after_probe e m w) = posts w"
  "launched (after_probe e m w) = launched w"
  by (simp_all add: after_probe_def)

lemma sleep_simps:
  "clock (sleep d w) = clock w + max 0 d"
  "gets (sleep d w) = gets w"
  "posts (sleep d w) = posts w"
  "launched (sleep d w) = launched w"
  by (simp_all add: sleep_def)

lemma health_check_eq:
  "health_check e m w =
     (probe_ok (get_outcome e (length (gets w))),
      m\<lparr> healthy := probe_ok (get_outcome e (length (gets w))) \<rparr>,
      after_probe e m w)"
  by (cases "get_outcome e (length (gets w))")
     (simp_all add: health_check_def http_get_def after_probe_def)

lemma wait_loop_Suc:
  "wait_loop (Suc fuel) e st m w =
     (if clock w - st < startup_timeout m then
        (if probe_ok (get_outcome e (length (gets w))) then
           Some (True, m\<lparr> healthy := True \<rparr>, after_probe e m w)
         else if process m \<noteq> None \<and>
                 exit_status e (the (process m)) (clock (after_probe e m w)) \<noteq> None
         then Some (False, m\<lparr> healthy := False \<rparr>, after_probe e m w)
         else wait_loop fuel e st (m\<lparr> healthy := False \<rparr>)
                (sleep (health_check_interval m) (after_probe e m w)))
      else Some (False, m, w))"
  by (simp add: health_check_eq)

declare wait_loop.simps(2) [simp del]

lemma wait_loop_frame:
  "wait_loop fuel e st m w = Some (r, m', w') \<Longrightarrow>
     m' = m\<lparr> healthy := healthy m' \<rparr> \<and> posts w' = posts w \<and> launched w' = launched w \<and>
     length (gets w) \<le> length (gets w')"
proof (induction fuel arbitrary: m w)
  case 0
  then show ?case by simp
next
  case (Suc fuel)
  let ?w2 = "sleep (health_check_interval m) (after_probe e m w)"
  from Suc.prems consider
      (timeout) "m' = m" "w' = w"
    | (up) "m' = m\<lparr> healthy := True \<rparr>" "w' = after_probe e m w"
    | (died) "m' = m\<lparr> healthy := False \<rparr>" "w' = after_probe e m w"
    | (again) "wait_loop fuel e st (m\<lparr> healthy := False \<rparr>) ?w2 = Some (r, m', w')"
    by (subst (asm) wait_loop_Suc) (simp split: if_splits)
  then show ?case
  proof cases
    case timeout
    then show ?thesis by simp
  next
    case up
    then show ?thesis by (simp add: after_probe_simps)
  next
    case died
    then show ?thesis by (simp add: after_probe_simps)
  next
    case again
    from Suc.IH [OF again] show ?thesis
      by (simp add: after_probe_simps sleep_simps)
  qed
qed

lemma wait_loop_never_healthy:
  "\<forall>n\<ge>length (gets w). \<not> probe_ok (get_outcome e n) \<Longrightarrow>
   wait_loop fuel e st m w = Some (r, m', w') \<Longrightarrow>
     \<not> r \<and> (healthy m' \<longrightarrow> healthy m \<and> \<not> clock w - st < startup_timeout m)"
proof (induction fuel arbitrary: m w)
  case 0
  then show ?case by simp
next
  case (Suc fuel)
  let ?w2 = "sleep (health_check_interval m) (after_probe e m w)"
  have h: "\<not> probe_ok (get_outcome e (length (gets w)))"
    using Suc.prems(1) by simp
  from Suc.prems(2) h consider
      (timeout) "\<not> clock w - st < startup_timeout m" "\<not> r" "m' = m"
    | (died) "\<not> r" "m' = m\<lparr> healthy := False \<rparr>"
    | (again) "wait_loop fuel e st (m\<lparr> healthy := False \<rparr>) ?w2 = Some (r, m', w')"
    by (subst (asm) wait_loop_Suc) (simp split: if_splits)
  then show ?case
  proof cases
    case timeout
    then show ?thesis by simp
  next
    case died
    then show ?thesis by simp
  next
    case again
    have later: "\<forall>n\<ge>length (gets ?w2). \<not> probe_ok (get_outcome e n)"
      using Suc.prems(1) by (simp add: after_probe_simps sleep_simps)
    from Suc.IH [OF later again] show ?thesis
      by simp
  qed
qed

lemma wait_loop_returns:
  "0 < health_check_interval m \<Longrightarrow> \<forall>n. 0 \<le> get_time e n \<Longrightarrow>
   startup_timeout m - (clock w - st) \<le> real fuel * health_check_interval m \<Longrightarrow>
     wait_loop (Suc fuel) e st m w \<noteq> None"
proof (induction fuel arbitrary: m w)
  case 0
  then show ?case
    by (subst wait_loop_Suc) auto
next
  case (Suc fuel)
  let ?m1 = "m\<lparr> healthy := False \<rparr>"
  let ?w2 = "sleep (health_check_interval m) (after_probe e m w)"
  have g: "0 \<le> get_time e (length (gets w))"
    using Suc.prems(2) by simp
  have "startup_timeout m - (clock ?w2 - st) \<le>
          startup_timeout m - (clock w - st) - health_check_interval m"
    using Suc.prems(1) g by (simp add: after_probe_simps sleep_simps)
  also have "\<dots> \<le> real (Suc fuel) * health_check_interval m - health_check_interval m"
    using Suc.prems(3) by simp
  also have "\<dots> = real fuel * health_check_interval m"
    by (simp add: algebra_simps)
  finally have "startup_timeout ?m1 - (clock ?w2 - st) \<le> real fuel * health_check_interval ?m1"
    by simp
  moreover have "0 < health_check_interval ?m1"
    using Suc.prems(1) by simp
  ultimately have "wait_loop (Suc fuel) e st ?m1 ?w2 \<noteq> None"
    using Suc.prems(2) by (rule Suc.IH [rotated 2])
  then show ?case
    by (subst wait_loop_Suc) auto
qed


lemma wait_for_healthy_returns:
  "0 < health_check_interval m \<Longrightarrow> \<forall>n. 0 \<le> get_time e n \<Longrightarrow>
   startup_timeout m \<le> real fuel * health_check_interval m \<Longrightarrow>
     wait_for_healthy (Suc fuel) e m w \<noteq> None"
  unfolding wait_for_healthy_def by (rule wait_loop_returns) simp_all

lemma start_returns:
  assumes "0 < health_check_interval m" and "\<forall>n. 0 \<le> get_time e n"
    and "startup_timeout m \<le> real fuel * health_check_interval m"
  shows "start (Suc fuel) e m w \<noteq> None"
proof (cases "starting m")
  case True
  with wait_for_healthy_returns [OF assms] show ?thesis
    by (simp add: start_def)
next
  case False
  have "start_try (Suc fuel) e (m\<lparr> starting := True \<rparr>) w \<noteq> None"
  proof (cases "find_python_command e")
    case None
    then show ?thesis by (simp add: start_try_def)
  next
    case (Some py)
    show ?thesis
    proof (cases "popen_error e (build_cmd e py)")
      case (Some msg)
      with \<open>find_python_command e = Some py\<close> show ?thesis
        by (simp add: start_try_def)
    next
      case None
      have "wait_for_healthy (Suc fuel) e
              (m\<lparr> starting := True, process := Some (length (launched w)) \<rparr>)
              (w\<lparr> launched := launched w @ [build_cmd e py] \<rparr>) \<noteq> None"
        by (rule wait_for_healthy_returns) (use assms in simp_all)
      with None \<open>find_python_command e = Some py\<close> show ?thesis
        by (simp add: start_try_def)
    qed
  qed
  with False show ?thesis
    by (auto simp add: start_def)
qed

lemma ensure_running_returns:
  assumes "0 < health_check_interval m" and "\<forall>n. 0 \<le> get_time e n"
    and "startup_timeout m \<le> real fuel * health_check_interval m"
  shows "ensure_running (Suc fuel) e m w \<noteq> None"
proof -
  let ?m1 = "m\<lparr> healthy := probe_ok (get_outcome e (length (gets w))) \<rparr>"
  have a: "wait_for_healthy (Suc fuel) e ?m1 (after_probe e m w) \<noteq> None"
    by (rule wait_for_healthy_returns) (use assms in simp_all)
  have b: "start (Suc fuel) e ?m1 (after_probe e m w) \<noteq> None"
    by (rule start_returns) (use assms in simp_all)
  from a b show ?thesis
    by (auto simp add: ensure_running_def health_check_eq)
qed




lemma start_never_healthy:
  assumes ns: "\<not> starting m"
    and iv: "0 < health_check_interval m" and tm: "0 < startup_timeout m"
    and gt: "\<forall>n. 0 \<le> get_time e n"
    and down: "\<forall>n\<ge>length (gets w). \<not> probe_ok (get_outcome e n)"
    and py: "find_python_command e = Some py"
    and po: "popen_error e (build_cmd e py) = None"
    and fu: "startup_timeout m \<le> real fuel * health_check_interval m"
  shows "\<exists>m' w'. start (Suc fuel) e m w = Some (False, m', w') \<and>
           \<not> starting m' \<and> \<not> healthy m' \<and> process m' = Some (length (launched w)) \<and>
           launched w' = launched w @ [build_cmd e py]"
proof -
  let ?m0 = "m\<lparr> starting := True, process := Some (length (launched w)) \<rparr>"
  let ?w0 = "w\<lparr> launched := launched w @ [build_cmd e py] \<rparr>"
  have "wait_loop (Suc fuel) e (clock ?w0) ?m0 ?w0 \<noteq> None"
    by (rule wait_loop_returns) (use iv gt fu in simp_all)
  then obtain r m1 w1 where wl: "wait_loop (Suc fuel) e (clock ?w0) ?m0 ?w0 = Some (r, m1, w1)"
    by auto
  have down0: "\<forall>n\<ge>length (gets ?w0). \<not> probe_ok (get_outcome e n)"
    using down by simp
  from wait_loop_never_healthy [OF down0 wl] tm have r: "\<not> r" and h: "\<not> healthy m1"
    by simp_all
  from wait_loop_frame [OF wl] have fr: "m1 = ?m0\<lparr> healthy := healthy m1 \<rparr>"
    and la: "launched w1 = launched ?w0"
    by simp_all
  have pr: "process m1 = Some (length (launched w))"
    by (subst fr) simp
  have "start (Suc fuel) e m w = Some (False, m1\<lparr> starting := False \<rparr>, w1)"
    using ns py po wl r by (simp add: start_def start_try_def wait_for_healthy_def)
  with h pr la show ?thesis
    by simp
qed

lemma client_process_eq:
  "client_process e c rq w =
     (response_of e c (post_outcome e (length (posts w))),
      w\<lparr> clock := clock w + post_time e (length (posts w)),
         posts := posts w @ [(base_url c @ ''/generate'', timeout c, build_payload rq)] \<rparr>)"
  by (simp add: client_process_def http_post_def)


lemma processing_time_ms_acestep_to_nueva:
  "processing_time_ms (acestep_to_nueva r q t) = t"
  by (simp add: acestep_to_nueva_def)

section \<open>Properties of the supervisor and the client\<close>

lemma find_python_command_down: "find_python_command down_env = Some ''/usr/bin/uv''"
  by (simp add: find_python_command_def down_env_def)

lemma build_cmd_down: "build_cmd down_env ''/usr/bin/uv'' = [''/usr/bin/uv'', ''run'', ''acestep-api'']"
  by (simp add: build_cmd_def)

text \<open>
  C6 (as amended). Let no start be in flight, let the poll interval and the startup
  timeout be positive, and let \<open>start\<close> launch the engine (an interpreter is found and
  \<^verbatim>\<open>Popen\<close> does not raise). If no health probe succeeds from then on, \<open>start\<close>
  returns (for every bound on the iterations that covers the timeout) with the result
  false; \<^verbatim>\<open>_starting\<close> and \<^verbatim>\<open>_healthy\<close> are false afterwards; the handle of the
  launched subprocess is kept in \<^verbatim>\<open>_process\<close>, and the subprocess is still running
  afterwards unless it has exited by itself.
\<close>

theorem C6_start_timeout:
  assumes "\<not> starting m"
    and "0 < health_check_interval m" and "0 < startup_timeout m"
    and "\<forall>n. 0 \<le> get_time e n"
    and "\<forall>n\<ge>length (gets w). \<not> probe_ok (get_outcome e n)"
    and "find_python_command e = Some py"
    and "popen_error e (build_cmd e py) = None"
    and "startup_timeout m \<le> real fuel * health_check_interval m"
  shows "\<exists>m' w'. start (Suc fuel) e m w = Some (False, m', w') \<and>
           \<not> starting m' \<and> \<not> healthy m' \<and>
           process m' = Some (length (launched w)) \<and>
           launched w' = launched w @ [build_cmd e py] \<and>
           is_running e m' w' = (exit_status e (length (launched w)) (clock w') = None)"
proof -
  from start_never_healthy [OF assms]
  obtain m' w' where "start (Suc fuel) e m w = Some (False, m', w')"
    and "\<not> starting m'" and "\<not> healthy m'" and "process m' = Some (length (launched w))"
    and "launched w' = launched w @ [build_cmd e py]"
    by blast
  then show ?thesis
    by (simp add: is_running_def)
qed

theorem C6_start_timeout_witness:
  "\<not> starting quick_manager \<and> 0 < health_check_interval quick_manager \<and>
   0 < startup_timeout quick_manager \<and>
   find_python_command down_env = Some ''/usr/bin/uv'' \<and>
   popen_error down_env (build_cmd down_env ''/usr/bin/uv'') = None \<and>
   startup_timeout quick_manager \<le> real 2 * health_check_interval quick_manager \<and>
   (\<exists>m' w'. start (Suc 2) down_env quick_manager world0 = Some (False, m', w') \<and>
      \<not> starting m' \<and> \<not> healthy m' \<and> process m' = Some 0 \<and>
      launched w' = [[''/usr/bin/uv'', ''run'', ''acestep-api'']] \<and>
      is_running down_env m' w')"
proof -
  have a: "\<not> starting quick_manager" "0 < health_check_interval quick_manager"
    "0 < startup_timeout quick_manager"
    "startup_timeout quick_manager \<le> real 2 * health_check_interval quick_manager"
    by (simp_all add: quick_manager_def default_manager_def)
  have b: "\<forall>n. 0 \<le> get_time down_env n"
    "\<forall>n\<ge>length (gets world0). \<not> probe_ok (get_outcome down_env n)"
    "popen_error down_env (build_cmd down_env ''/usr/bin/uv'') = None"
    "\<And>h t. exit_status down_env h t = None"
    by (simp_all add: down_env_def)
  from C6_start_timeout [OF a(1-3) b(1,2) find_python_command_down b(3) a(4)]
  show ?thesis
    using a b find_python_command_down
    by (simp add: build_cmd_down world0_def)
qed

text \<open>
  The claim as stated fails where the engine never answers and its process stays alive:
  with a startup timeout of 10 seconds and probes that take one second, \<open>start\<close> returns
  false after 12 seconds and the supervisor still holds the live subprocess.
\<close>

theorem C6_live_subprocess_counterexample:
  "start (Suc (Suc (Suc 0))) down_env quick_manager world0 =
     Some (False,
           quick_manager\<lparr> process := Some 0 \<rparr>,
           \<lparr> clock = 12,
             gets = [(''http://localhost:8000/health'', 5), (''http://localhost:8000/health'', 5)],
             posts = [],
             launched = [[''/usr/bin/uv'', ''run'', ''acestep-api'']] \<rparr>) \<and>
   is_running down_env (quick_manager\<lparr> process := Some 0 \<rparr>)
     \<lparr> clock = 12,
       gets = [(''http://localhost:8000/health'', 5), (''http://localhost:8000/health'', 5)],
       posts = [],
       launched = [[''/usr/bin/uv'', ''run'', ''acestep-api'']] \<rparr>"
proof -
  have ex: "\<And>h t. exit_status down_env h t = None"
    and gt: "\<And>n. get_time down_env n = 1"
    and go: "\<And>n. get_outcome down_env n = ConnectError ''All connection attempts failed''"
    and po: "\<And>cmd. popen_error down_env cmd = None"
    by (simp_all add: down_env_def)
  show ?thesis
    by (simp add: start_def start_try_def wait_for_healthy_def wait_loop_Suc
        find_python_command_down build_cmd_down ex gt go po is_running_def
        after_probe_def sleep_def quick_manager_def default_manager_def world0_def)
qed










section \<open>Properties of the dispatcher\<close>

lemma input_missing_eq:
  "input_missing e request w =
     (input_path request \<noteq> [] \<and> \<not> path_exists e (input_path request),
      w\<lparr> clock := clock w + (if input_path request \<noteq> [] then fs_time e else 0) \<rparr>)"
  by (simp add: input_missing_def exists_check_def)

lemma process_audio_eq:
  assumes "ensure_running fuel e m w = Some (ok, m1, w1)"
  shows "process_audio fuel rnd e client request m w =
     Some (if \<not> ok then
             (Inl (HTTPException 503
                ''ACE-Step API is not available. Please ensure ACE-Step is installed.''), m1, w1)
           else if input_path request \<noteq> [] \<and> \<not> path_exists e (input_path request) then
             (Inl (HTTPException 400 (''Input file not found: '' @ input_path request)), m1,
              fst (snd (input_missing e request w1), ()))
           else
             (Inr (acestep_to_nueva
                     (response_of e client (post_outcome e (length (posts w1)))) request
                     (py_int ((clock w1 + (if input_path request \<noteq> [] then fs_time e else 0) +
                               post_time e (length (posts w1)) - clock w) * 1000))),
              m1,
              snd (client_process e client (nueva_to_acestep rnd request)
                     (snd (input_missing e request w1)))))"
  using assms
  by (simp add: process_audio_def Let_def input_missing_eq client_process_eq)

text \<open>
  C3 (as amended). The handler of \<^verbatim>\<open>/process\<close> returns (for every bound on the
  iterations that covers the startup timeout), and when it returns a response, the
  reported \<open>processing_time_ms\<close> is the span from the entry of the handler to the return of
  the engine client, in milliseconds, truncated: the sum of the time spent in
  \<open>ensure_running\<close>, the time of the check of the input file and the time of the client's
  call.
\<close>

theorem C3_processing_time:
  assumes "0 < health_check_interval m" and "\<forall>n. 0 \<le> get_time e n"
    and "startup_timeout m \<le> real fuel * health_check_interval m"
  shows "\<exists>out m' w'.
           process_audio (Suc fuel) rnd e client request m w = Some (out, m', w') \<and>
           (\<forall>resp. out = Inr resp \<longrightarrow>
              processing_time_ms resp = py_int ((clock w' - clock w) * 1000) \<and>
              (\<exists>w1. ensure_running (Suc fuel) e m w = Some (True, m', w1) \<and>
                 clock w' - clock w =
                   (clock w1 - clock w) +
                   (if input_path request \<noteq> [] then fs_time e else 0) +
                   post_time e (length (posts w1))))"
proof -
  from ensure_running_returns [OF assms, of w]
  obtain ok m1 w1 where er: "ensure_running (Suc fuel) e m w = Some (ok, m1, w1)"
    by auto
  show ?thesis
    unfolding process_audio_eq [OF er]
    by (simp add: er processing_time_ms_acestep_to_nueva input_missing_eq client_process_eq)
qed

theorem C3_processing_time_witness:
  "0 < health_check_interval default_manager \<and>
   startup_timeout default_manager \<le> real 24 * health_check_interval default_manager \<and>
   reported_ms (process_audio (Suc 24) (\<lambda>x. x) healthy_env default_client scenario_request
                  default_manager world0) = Some 3500"
proof -
  have a: "0 < health_check_interval default_manager"
    "startup_timeout default_manager \<le> real 24 * health_check_interval default_manager"
    by (simp_all add: default_manager_def)
  have b: "\<forall>n. 0 \<le> get_time healthy_env n"
    by (simp add: healthy_env_def down_env_def)
  have env: "get_time healthy_env 0 = 2" "fs_time healthy_env = 1 / 2"
    "\<And>n. post_time healthy_env n = 1" "input_path scenario_request \<noteq> []"
    "clock world0 = 0" "gets world0 = []"
    by (simp_all add: healthy_env_def down_env_def scenario_request_def world0_def)
  have er: "ensure_running (Suc 24) healthy_env default_manager world0 =
              Some (True, default_manager\<lparr> healthy := True \<rparr>,
                    after_probe healthy_env default_manager world0)"
    by (simp add: ensure_running_def health_check_eq healthy_env_def down_env_def world0_def)
  from C3_processing_time [OF a(1) b a(2), of "\<lambda>x. x" default_client scenario_request world0]
  obtain out m' w' where
    pa: "process_audio (Suc 24) (\<lambda>x. x) healthy_env default_client scenario_request
           default_manager world0 = Some (out, m', w')"
    and t: "\<forall>resp. out = Inr resp \<longrightarrow>
              processing_time_ms resp = py_int ((clock w' - clock world0) * 1000) \<and>
              (\<exists>w1. ensure_running (Suc 24) healthy_env default_manager world0 =
                      Some (True, m', w1) \<and>
                 clock w' - clock world0 =
                   (clock w1 - clock world0) +
                   (if input_path scenario_request \<noteq> [] then fs_time healthy_env else 0) +
                   post_time healthy_env (length (posts w1)))"
    by blast
  from pa process_audio_eq [OF er, of "\<lambda>x. x" default_client scenario_request]
  obtain resp where out: "out = Inr resp"
    by (auto simp add: scenario_request_def healthy_env_def down_env_def)
  with t er have d: "clock w' - clock world0 = 7 / 2"
    and p: "processing_time_ms resp = py_int ((clock w' - clock world0) * 1000)"
    by (auto simp add: after_probe_simps env)
  have "processing_time_ms resp = 3500"
    unfolding p d by (simp add: py_int_def)
  with pa out a show ?thesis
    by (simp add: reported_ms_def)
qed

text \<open>
  The claim as stated fails on a healthy engine whose health probe takes two seconds: the
  check of the input file takes half a second and the call of the engine client one
  second, and the response reports 3500 milliseconds, not the 1000 milliseconds of the
  client's call.
\<close>

theorem C3_client_span_counterexample:
  "reported_ms (process_audio (Suc 0) (\<lambda>x. x) healthy_env default_client scenario_request
                  default_manager world0) = Some 3500 \<and>
   clock (snd (client_process healthy_env default_client
                 (nueva_to_acestep (\<lambda>x. x) scenario_request) call_world)) -
     clock call_world = 1 \<and>
   reported_ms (process_audio (Suc 0) (\<lambda>x. x) healthy_env default_client scenario_request
                  default_manager world0) \<noteq>
     Some (py_int ((clock (snd (client_process healthy_env default_client
                                  (nueva_to_acestep (\<lambda>x. x) scenario_request) call_world)) -
                    clock call_world) * 1000))"
proof -
  have er: "ensure_running (Suc 0) healthy_env default_manager world0 =
              Some (True, default_manager\<lparr> healthy := True \<rparr>,
                    after_probe healthy_env default_manager world0)"
    by (simp add: ensure_running_def health_check_eq healthy_env_def down_env_def world0_def)
  have "reported_ms (process_audio (Suc 0) (\<lambda>x. x) healthy_env default_client scenario_request
                       default_manager world0) = Some 3500"
    unfolding process_audio_eq [OF er]
    by (simp add: reported_ms_def processing_time_ms_acestep_to_nueva after_probe_simps
        world0_def healthy_env_def down_env_def scenario_request_def py_int_def)
  moreover have "clock (snd (client_process healthy_env default_client
                   (nueva_to_acestep (\<lambda>x. x) scenario_request) call_world)) -
                 clock call_world = 1"
    by (simp add: client_process_eq healthy_env_def down_env_def)
  ultimately show ?thesis
    by (simp add: py_int_def)
qed




section \<open>Properties of the line protocol\<close>

text \<open>
  C9 (as amended). A process request without a truthy \<open>output_path\<close> (omitted, null or
  empty) never invokes a model processor and is answered with \<open>success = False\<close>. The
  error code is \<open>MISSING_PARAMETER\<close> when the request names a loaded model (by a
  non-empty string). Otherwise the
  check of the model comes first: the code is \<open>MODEL_NOT_FOUND\<close>, or \<open>PROCESSING_ERROR\<close>
  for a model value that cannot be hashed. A request decoded from a JSON object without
  the key \<open>output_path\<close> is such a request.
\<close>

theorem C9_missing_output_path:
  "(from_json d = Inr request \<and> d ''output_path'' = None \<longrightarrow> br_output_path request = PNone) \<and>
   (action request = PROCESS \<and> \<not> py_truthy (br_output_path request) \<longrightarrow>
      calls (snd (handle_request fmt request b)) = calls b \<and>
      \<not> bs_success (fst (handle_request fmt request b)) \<and>
      bs_error_code (fst (handle_request fmt request b)) =
        Some (if py_truthy (model request) \<and>
                 (\<exists>name p. model request = PStr name \<and> map_of (models b) name = Some p)
              then ''MISSING_PARAMETER''
              else if py_truthy (model request) \<and>
                      (\<exists>exc. lookup_model (models b) (model request) = Inl exc)
              then ''PROCESSING_ERROR''
              else ''MODEL_NOT_FOUND''))"
proof -
  have a: "br_output_path request = PNone"
    if "from_json d = Inr request" "d ''output_path'' = None"
    using that by (auto simp add: from_json_def get_or_def split: option.splits)
  have b: "calls (snd (handle_request fmt request b)) = calls b \<and>
           \<not> bs_success (fst (handle_request fmt request b)) \<and>
           bs_error_code (fst (handle_request fmt request b)) =
             Some (if py_truthy (model request) \<and>
                 (\<exists>name p. model request = PStr name \<and> map_of (models b) name = Some p)
                   then ''MISSING_PARAMETER''
                   else if py_truthy (model request) \<and>
                           (\<exists>exc. lookup_model (models b) (model request) = Inl exc)
                   then ''PROCESSING_ERROR''
                   else ''MODEL_NOT_FOUND'')"
    if p: "action request = PROCESS" and n: "\<not> py_truthy (br_output_path request)"
  proof (cases "model request")
    case (PStr name)
    with p n show ?thesis
      by (cases "map_of (models b) name")
         (auto simp add: handle_request_def handle_process_def error_response_def)
  next
    case PNone
    with p n show ?thesis
      by (simp add: handle_request_def handle_process_def error_response_def)
  next
    case (PBool x)
    with p n show ?thesis
      by (simp add: handle_request_def handle_process_def error_response_def)
  next
    case (PInt x)
    with p n show ?thesis
      by (simp add: handle_request_def handle_process_def error_response_def)
  next
    case (PFloat x)
    with p n show ?thesis
      by (simp add: handle_request_def handle_process_def error_response_def)
  next
    case (PList xs)
    with p n show ?thesis
      by (simp add: handle_request_def handle_process_def error_response_def)
  next
    case (PDict kvs)
    with p n show ?thesis
      by (simp add: handle_request_def handle_process_def error_response_def)
  qed
  from a b show ?thesis
    by blast
qed

theorem C9_missing_output_path_witness:
  "from_json no_output_request \<noteq> Inl ''not a valid Action'' \<and>
   no_output_request ''output_path'' = None \<and>
   calls (snd (handle_request stub_fmt (projr (from_json no_output_request)) stub_bridge)) = [] \<and>
   \<not> bs_success (fst (handle_request stub_fmt (projr (from_json no_output_request)) stub_bridge)) \<and>
   bs_error_code (fst (handle_request stub_fmt (projr (from_json no_output_request)) stub_bridge)) =
     Some ''MISSING_PARAMETER''"
proof -
  have fj: "from_json no_output_request =
              Inr \<lparr> action = PROCESS, request_id = PNone, br_prompt = PNone,
                    br_input_path = PStr ''in.wav'', br_output_path = PNone,
                    model = PStr ''ace-step'', model_params = PDict [],
                    br_context = PDict [] \<rparr>"
    by (simp add: from_json_def no_output_request_def get_or_def)
  have o: "no_output_request ''output_path'' = None"
    by (simp add: no_output_request_def)
  have ne: "from_json no_output_request \<noteq> Inl ''not a valid Action''"
    by (simp add: fj)
  from C9_missing_output_path [of no_output_request "projr (from_json no_output_request)"
      stub_fmt stub_bridge]
  have "calls (snd (handle_request stub_fmt (projr (from_json no_output_request)) stub_bridge)) =
          calls stub_bridge \<and>
        \<not> bs_success (fst (handle_request stub_fmt (projr (from_json no_output_request))
                             stub_bridge)) \<and>
        bs_error_code (fst (handle_request stub_fmt (projr (from_json no_output_request))
                              stub_bridge)) = Some ''MISSING_PARAMETER''"
    unfolding fj by (simp add: o stub_bridge_def)
  with o ne show ?thesis
    by (simp add: stub_bridge_def)
qed

text \<open>
  The claim as stated fails for a process request that omits \<open>output_path\<close> and names no
  model: the answer has the error code \<open>MODEL_NOT_FOUND\<close>, not \<open>MISSING_PARAMETER\<close>.
\<close>

theorem C9_model_checked_first_counterexample:
  "from_json no_model_request =
     Inr \<lparr> action = PROCESS, request_id = PNone, br_prompt = PNone,
           br_input_path = PStr ''in.wav'', br_output_path = PNone,
           model = PNone, model_params = PDict [], br_context = PDict [] \<rparr> \<and>
   bs_error_code (fst (handle_request stub_fmt
       \<lparr> action = PROCESS, request_id = PNone, br_prompt = PNone,
         br_input_path = PStr ''in.wav'', br_output_path = PNone,
         model = PNone, model_params = PDict [], br_context = PDict [] \<rparr> stub_bridge)) =
     Some ''MODEL_NOT_FOUND'' \<and>
   bs_error_code (fst (handle_request stub_fmt
       \<lparr> action = PROCESS, request_id = PNone, br_prompt = PNone,
         br_input_path = PStr ''in.wav'', br_output_path = PNone,
         model = PNone, model_params = PDict [], br_context = PDict [] \<rparr> stub_bridge)) \<noteq>
     Some ''MISSING_PARAMETER''"
  by (simp add: from_json_def no_model_request_def get_or_def handle_request_def
      handle_process_def error_response_def)

section \<open>Properties of concurrent callers\<close>














text \<open>
  The task model agrees with the sequential one. A task that is alone on the event loop,
  waits for the engine and is resumed as soon as what it waits for has happened ends as the
  sequential \<open>wait_loop\<close> does: with the same result, the same world and the same
  supervisor (the owner of the start clearing \<^verbatim>\<open>_starting\<close> on its way out, as the
  \<^verbatim>\<open>finally\<close> of \<^verbatim>\<open>start()\<close> does).
\<close>

lemma run_loop_append: "run_loop e (xs @ ys) s = run_loop e ys (run_loop e xs s)"
  by (simp add: run_loop_def)

lemma step_lone:
  assumes "enabled p ((w :: world)\<lparr> clock := clock w + max 0 dt \<rparr>)"
    and "resume e p m (w\<lparr> clock := clock w + max 0 dt \<rparr>) = (p', m', w')"
  shows "step e (0, dt) \<lparr> mgr = m, wld = w, tasks = [p] \<rparr> = \<lparr> mgr = m', wld = w', tasks = [p'] \<rparr>"
  using assms by (simp add: step_def Let_def)

lemma lone_wait_agrees:
  assumes gt: "\<forall>n. 0 \<le> get_time e n"
    and wl: "wait_loop fuel e st m w = Some (r, m', w')"
  shows "\<exists>evs. run_loop e evs
           (case loop_head e own st m w of (p, m2, w2) \<Rightarrow> \<lparr> mgr = m2, wld = w2, tasks = [p] \<rparr>) =
           \<lparr> mgr = (if own then m'\<lparr> starting := False \<rparr> else m'), wld = w', tasks = [Done r] \<rparr>"
  using wl
proof (induction fuel arbitrary: m w)
  case 0
  then show ?case by simp
next
  case (Suc fuel)
  let ?k = "length (gets w)"
  let ?w0 = "w\<lparr> gets := gets w @ [(acestep_url m @ ''/health'', 5)] \<rparr>"
  let ?w1 = "after_probe e m w"
  have g: "max 0 (get_time e ?k) = get_time e ?k"
    using gt by (simp add: max_def)
  have w1: "?w0\<lparr> clock := clock ?w0 + max 0 (get_time e ?k) \<rparr> = ?w1"
    by (simp add: after_probe_def g)
  show ?case
  proof (cases "clock w - st < startup_timeout m")
    case False
    with Suc.prems have "r = False" "m' = m" "w' = w"
      by (simp_all add: wait_loop_Suc)
    with False have "run_loop e []
           (case loop_head e own st m w of (p, m2, w2) \<Rightarrow> \<lparr> mgr = m2, wld = w2, tasks = [p] \<rparr>) =
           \<lparr> mgr = (if own then m'\<lparr> starting := False \<rparr> else m'), wld = w', tasks = [Done r] \<rparr>"
      by (simp add: run_loop_def loop_head_def finish_def)
    then show ?thesis by blast
  next
    case True
    then have lh: "(case loop_head e own st m w of
                      (p, m2, w2) \<Rightarrow> \<lparr> mgr = m2, wld = w2, tasks = [p] \<rparr>) =
                   \<lparr> mgr = m, wld = ?w0,
                     tasks = [ProbeWait own st ?k (clock w + get_time e ?k)] \<rparr>"
      by (simp add: loop_head_def issue_probe_def)
    have en: "enabled (ProbeWait own st ?k (clock w + get_time e ?k))
                (?w0\<lparr> clock := clock ?w0 + max 0 (get_time e ?k) \<rparr>)"
      by (simp add: g)
    let ?dead = "process m \<noteq> None \<and> exit_status e (the (process m)) (clock ?w1) \<noteq> None"
    have wl1: "wait_loop (Suc fuel) e st m w =
                 (if probe_ok (get_outcome e ?k) then Some (True, m\<lparr> healthy := True \<rparr>, ?w1)
                  else if ?dead then Some (False, m\<lparr> healthy := False \<rparr>, ?w1)
                  else wait_loop fuel e st (m\<lparr> healthy := False \<rparr>)
                         (sleep (health_check_interval m) ?w1))"
      using True by (subst wait_loop_Suc) simp
    have "(probe_ok (get_outcome e ?k) \<and> r = True \<and> m' = m\<lparr> healthy := True \<rparr> \<and> w' = ?w1) \<or>
          (\<not> probe_ok (get_outcome e ?k) \<and> ?dead \<and> r = False \<and>
             m' = m\<lparr> healthy := False \<rparr> \<and> w' = ?w1) \<or>
          (\<not> probe_ok (get_outcome e ?k) \<and> \<not> ?dead \<and>
             wait_loop fuel e st (m\<lparr> healthy := False \<rparr>)
               (sleep (health_check_interval m) ?w1) = Some (r, m', w'))"
    proof (cases "probe_ok (get_outcome e ?k)")
      case True
      with Suc.prems wl1 show ?thesis by simp
    next
      case False
      show ?thesis
      proof (cases ?dead)
        case True
        with \<open>\<not> probe_ok (get_outcome e ?k)\<close> Suc.prems wl1 show ?thesis by auto
      next
        case False
        with \<open>\<not> probe_ok (get_outcome e ?k)\<close> Suc.prems wl1 show ?thesis by auto
      qed
    qed
    then consider
        (up) "probe_ok (get_outcome e ?k)" "r = True" "m' = m\<lparr> healthy := True \<rparr>" "w' = ?w1"
      | (died) "\<not> probe_ok (get_outcome e ?k)" "?dead"
          "r = False" "m' = m\<lparr> healthy := False \<rparr>" "w' = ?w1"
      | (again) "\<not> probe_ok (get_outcome e ?k)" "\<not> ?dead"
          "wait_loop fuel e st (m\<lparr> healthy := False \<rparr>)
             (sleep (health_check_interval m) ?w1) = Some (r, m', w')"
      by blast
    then show ?thesis
    proof cases
      case up
      have "resume e (ProbeWait own st ?k (clock w + get_time e ?k)) m ?w1 =
              (Done r, (if own then m'\<lparr> starting := False \<rparr> else m'), w')"
        using up by (simp add: finish_def)
      then have "resume e (ProbeWait own st ?k (clock w + get_time e ?k)) m
                   (?w0\<lparr> clock := clock ?w0 + max 0 (get_time e ?k) \<rparr>) =
              (Done r, (if own then m'\<lparr> starting := False \<rparr> else m'), w')"
        by (simp only: w1)
      from step_lone [OF en this]
      have "run_loop e [(0, get_time e ?k)]
              (case loop_head e own st m w of
                 (p, m2, w2) \<Rightarrow> \<lparr> mgr = m2, wld = w2, tasks = [p] \<rparr>) =
            \<lparr> mgr = (if own then m'\<lparr> starting := False \<rparr> else m'), wld = w', tasks = [Done r] \<rparr>"
        unfolding lh by (simp add: run_loop_def)
      then show ?thesis by blast
    next
      case died
      have "resume e (ProbeWait own st ?k (clock w + get_time e ?k)) m ?w1 =
              (Done r, (if own then m'\<lparr> starting := False \<rparr> else m'), w')"
        using died by (simp add: finish_def)
      then have "resume e (ProbeWait own st ?k (clock w + get_time e ?k)) m
                   (?w0\<lparr> clock := clock ?w0 + max 0 (get_time e ?k) \<rparr>) =
              (Done r, (if own then m'\<lparr> starting := False \<rparr> else m'), w')"
        by (simp only: w1)
      from step_lone [OF en this]
      have "run_loop e [(0, get_time e ?k)]
              (case loop_head e own st m w of
                 (p, m2, w2) \<Rightarrow> \<lparr> mgr = m2, wld = w2, tasks = [p] \<rparr>) =
            \<lparr> mgr = (if own then m'\<lparr> starting := False \<rparr> else m'), wld = w', tasks = [Done r] \<rparr>"
        unfolding lh by (simp add: run_loop_def)
      then show ?thesis by blast
    next
      case again
      let ?m1 = "m\<lparr> healthy := False \<rparr>"
      let ?iv = "health_check_interval m"
      let ?w2 = "sleep ?iv ?w1"
      let ?p1 = "Sleeping own st (clock ?w1 + max 0 ?iv)"
      have "resume e (ProbeWait own st ?k (clock w + get_time e ?k)) m ?w1 = (?p1, ?m1, ?w1)"
        using again by auto
      then have "resume e (ProbeWait own st ?k (clock w + get_time e ?k)) m
                   (?w0\<lparr> clock := clock ?w0 + max 0 (get_time e ?k) \<rparr>) = (?p1, ?m1, ?w1)"
        by (simp only: w1)
      from step_lone [OF en this]
      have s1: "step e (0, get_time e ?k)
                  \<lparr> mgr = m, wld = ?w0,
                    tasks = [ProbeWait own st ?k (clock w + get_time e ?k)] \<rparr> =
                \<lparr> mgr = ?m1, wld = ?w1, tasks = [?p1] \<rparr>" .
      have w2: "?w1\<lparr> clock := clock ?w1 + max 0 (max 0 ?iv) \<rparr> = ?w2"
        by (simp add: sleep_def)
      have en2: "enabled ?p1 (?w1\<lparr> clock := clock ?w1 + max 0 (max 0 ?iv) \<rparr>)"
        by simp
      obtain p2 m2 w3 where l2: "loop_head e own st ?m1 ?w2 = (p2, m2, w3)"
        by (cases "loop_head e own st ?m1 ?w2") auto
      then have "resume e ?p1 ?m1 ?w2 = (p2, m2, w3)"
        by simp
      then have "resume e ?p1 ?m1 (?w1\<lparr> clock := clock ?w1 + max 0 (max 0 ?iv) \<rparr>) = (p2, m2, w3)"
        by (simp only: w2)
      from step_lone [OF en2 this]
      have s2: "step e (0, max 0 ?iv) \<lparr> mgr = ?m1, wld = ?w1, tasks = [?p1] \<rparr> =
                \<lparr> mgr = m2, wld = w3, tasks = [p2] \<rparr>" .
      from Suc.IH [OF again(3)] l2
      obtain evs where ih: "run_loop e evs \<lparr> mgr = m2, wld = w3, tasks = [p2] \<rparr> =
          \<lparr> mgr = (if own then m'\<lparr> starting := False \<rparr> else m'), wld = w', tasks = [Done r] \<rparr>"
        by auto
      have "run_loop e ([(0, get_time e ?k), (0, max 0 ?iv)] @ evs)
              (case loop_head e own st m w of
                 (p, m2, w2) \<Rightarrow> \<lparr> mgr = m2, wld = w2, tasks = [p] \<rparr>) =
            \<lparr> mgr = (if own then m'\<lparr> starting := False \<rparr> else m'), wld = w', tasks = [Done r] \<rparr>"
        unfolding lh run_loop_append
        using s1 s2 ih by (simp add: run_loop_def)
      then show ?thesis by blast
    qed
  qed
qed


lemma finish_kind: "finish own r m w = (p', m', w') \<Longrightarrow> \<not> fresh p' \<and> \<not> waiter p' \<and> \<not> owner p'"
  by (auto simp add: finish_def)

lemma loop_head_kind:
  assumes "loop_head e own st m w = (p', m', w')"
  shows "\<not> fresh p'" and "waiter p' \<longrightarrow> \<not> own" and "owner p' \<longrightarrow> own"
  using assms
  by (auto simp add: loop_head_def issue_probe_def finish_def split: if_splits)

lemma begin_start_kind:
  assumes "begin_start e m w = (p', m', w')"
  shows "\<not> fresh p'" and "\<not> waiter p'"
    and "owner p' \<longrightarrow> length (launched w') = Suc (length (launched w))"
  using assms
  by (auto simp add: begin_start_def loop_head_def issue_probe_def finish_def
      split: if_splits option.splits)













end
